theory Spec2Isabelle
  imports Main "HOL-Library.Word" "HOL-Library.Char_ord"
begin

section \<open>Heartbeat: the per-peer liveness record\<close>

text \<open>
  Source: package \<open>heartbeat\<close>, type \<open>heartbeatMessageInfo\<close>.

  A \<open>time.Time\<close> is an instant, counted in nanoseconds by an integer (Go's \<open>Time\<close>
  reaches far beyond 64 bits of nanoseconds, so the instants are not bounded). A
  \<open>time.Duration\<close> is an \<open>int64\<close> number of nanoseconds: an integer from \<open>-2^63\<close> to
  \<open>2^63 - 1\<close>. \<open>t.Sub(u)\<close> is the difference of the instants, and the least or the
  greatest \<open>Duration\<close> when the difference does not fit; \<open>+=\<close> on a \<open>Duration\<close> wraps
  around at 64 bits, which \<open>wrapInt64\<close> writes out.

  The record's \<open>getTimeHandler\<close> is the injected clock. Every function that reads the
  clock takes the reading as an argument: the constructor takes \<open>Some now\<close> for a
  timer whose \<open>Now()\<close> returns \<open>now\<close> and \<open>None\<close> for a nil timer, and
  \<open>HeartbeatReceived\<close> takes \<open>crtTime\<close>, the value of \<open>hbmi.getTimeHandler()\<close>.
  The mutex is not modelled: calls are taken one at a time.
\<close>

type_synonym Time = int
type_synonym Duration = int

definition wrapInt64 :: "int \<Rightarrow> Duration" where
  "wrapInt64 x = (x + 9223372036854775808) mod 18446744073709551616 - 9223372036854775808"

definition Sub :: "Time \<Rightarrow> Time \<Rightarrow> Duration" where
  "Sub t u =
     (let d = t - u
      in if d < - 9223372036854775808 then - 9223372036854775808
         else if 9223372036854775807 < d then 9223372036854775807
         else d)"

definition maxDuration :: "Duration \<Rightarrow> Duration \<Rightarrow> Duration" where
  "maxDuration first second = (if first > second then first else second)"

record heartbeatMessageInfo =
  maxDurationPeerUnresponsive :: Duration
  maxInactiveTime :: Duration
  totalUpTime :: Duration
  totalDownTime :: Duration
  timeStamp :: Time
  isActive :: bool
  receivedShardID :: "32 word"
  computedShardID :: "32 word"
  versionNumber :: string
  nodeDisplayName :: string
  isValidator :: bool
  lastUptimeDowntime :: Time
  genesisTime :: Time

datatype heartbeatError = ErrInvalidMaxDurationPeerUnresponsive | ErrNilTimer

definition newHeartbeatMessageInfo ::
  "Duration \<Rightarrow> bool \<Rightarrow> Time \<Rightarrow> Time option \<Rightarrow> heartbeatError + heartbeatMessageInfo" where
  "newHeartbeatMessageInfo maxDur isVal genesis timer =
     (if maxDur = 0 then Inl ErrInvalidMaxDurationPeerUnresponsive
      else case timer of
        None \<Rightarrow> Inl ErrNilTimer
      | Some now \<Rightarrow> Inr \<lparr>
          maxDurationPeerUnresponsive = maxDur,
          maxInactiveTime = 0,
          totalUpTime = 0,
          totalDownTime = 0,
          timeStamp = genesis,
          isActive = False,
          receivedShardID = 0,
          computedShardID = 0,
          versionNumber = [],
          nodeDisplayName = [],
          isValidator = isVal,
          lastUptimeDowntime = now,
          genesisTime = genesis \<rparr>)"

definition computeValidDuration :: "Time \<Rightarrow> heartbeatMessageInfo \<Rightarrow> bool" where
  "computeValidDuration crtTime hbmi =
     (let crtDuration = Sub crtTime (timeStamp hbmi);
          crtDuration = maxDuration 0 crtDuration
      in crtDuration \<le> maxDurationPeerUnresponsive hbmi)"

definition updateMaxInactiveTimeDuration ::
  "Time \<Rightarrow> heartbeatMessageInfo \<Rightarrow> heartbeatMessageInfo" where
  "updateMaxInactiveTimeDuration currentTime hbmi =
     (let crtDuration = Sub currentTime (timeStamp hbmi);
          crtDuration = maxDuration 0 crtDuration;
          greaterDurationThanMax = (maxInactiveTime hbmi < crtDuration);
          currentTimeAfterGenesis = (Sub (genesisTime hbmi) currentTime < 0)
      in if greaterDurationThanMax \<and> currentTimeAfterGenesis
         then hbmi\<lparr>maxInactiveTime := crtDuration\<rparr>
         else hbmi)"

definition updateUpAndDownTime ::
  "bool \<Rightarrow> Time \<Rightarrow> heartbeatMessageInfo \<Rightarrow> heartbeatMessageInfo" where
  "updateUpAndDownTime previousActive crtTime hbmi0 =
     (let hbmi = (if Sub (lastUptimeDowntime hbmi0) (genesisTime hbmi0) < 0
                  then hbmi0\<lparr>lastUptimeDowntime := genesisTime hbmi0\<rparr>
                  else hbmi0);
          lastDuration = Sub crtTime (lastUptimeDowntime hbmi);
          lastDuration = maxDuration 0 lastDuration;
          hbmi = (if previousActive \<and> isActive hbmi
                  then hbmi\<lparr>totalUpTime := wrapInt64 (totalUpTime hbmi + lastDuration)\<rparr>
                  else hbmi\<lparr>totalDownTime :=
                              wrapInt64 (totalDownTime hbmi + lastDuration)\<rparr>)
      in hbmi\<lparr>lastUptimeDowntime := crtTime\<rparr>)"

definition updateTimes ::
  "Time \<Rightarrow> bool \<Rightarrow> heartbeatMessageInfo \<Rightarrow> heartbeatMessageInfo" where
  "updateTimes crtTime previousActive hbmi =
     (if Sub crtTime (genesisTime hbmi) < 0 then hbmi
      else updateUpAndDownTime previousActive crtTime
             (updateMaxInactiveTimeDuration crtTime hbmi))"

definition updateFields :: "Time \<Rightarrow> heartbeatMessageInfo \<Rightarrow> heartbeatMessageInfo" where
  "updateFields crtTime hbmi =
     (let validDuration = computeValidDuration crtTime hbmi;
          previousActive = (isActive hbmi \<and> validDuration);
          hbmi = hbmi\<lparr>isActive := True\<rparr>
      in updateTimes crtTime previousActive hbmi)"

definition computeActive :: "Time \<Rightarrow> heartbeatMessageInfo \<Rightarrow> heartbeatMessageInfo" where
  "computeActive crtTime hbmi =
     (let validDuration = computeValidDuration crtTime hbmi;
          hbmi = hbmi\<lparr>isActive := (isActive hbmi \<and> validDuration)\<rparr>
      in updateTimes crtTime (isActive hbmi) hbmi)"

definition HeartbeatReceived ::
  "Time \<Rightarrow> 32 word \<Rightarrow> 32 word \<Rightarrow> string \<Rightarrow> string \<Rightarrow>
     heartbeatMessageInfo \<Rightarrow> heartbeatMessageInfo" where
  "HeartbeatReceived crtTime computedShard receivedShard version displayName hbmi =
     (let hbmi = updateFields crtTime hbmi
      in hbmi\<lparr> computedShardID := computedShard,
               receivedShardID := receivedShard,
               timeStamp := crtTime,
               versionNumber := version,
               nodeDisplayName := displayName \<rparr>)"

text \<open>
  A record is mutated through its two entry points only. A history of calls is a list,
  applied from the left; each call carries the clock reading it runs with.
\<close>

datatype hbCall =
    CallHeartbeatReceived Time "32 word" "32 word" string string
  | CallComputeActive Time

fun callTime :: "hbCall \<Rightarrow> Time" where
  "callTime (CallHeartbeatReceived t c r v n) = t"
| "callTime (CallComputeActive t) = t"

fun applyCall :: "hbCall \<Rightarrow> heartbeatMessageInfo \<Rightarrow> heartbeatMessageInfo" where
  "applyCall (CallHeartbeatReceived t c r v n) hbmi = HeartbeatReceived t c r v n hbmi"
| "applyCall (CallComputeActive t) hbmi = computeActive t hbmi"

fun applyCalls :: "hbCall list \<Rightarrow> heartbeatMessageInfo \<Rightarrow> heartbeatMessageInfo" where
  "applyCalls [] hbmi = hbmi"
| "applyCalls (c # cs) hbmi = applyCalls cs (applyCall c hbmi)"

text \<open>The clock never runs backwards over a history that starts at reading \<open>t\<close>.\<close>

fun timesAscending :: "Time \<Rightarrow> hbCall list \<Rightarrow> bool" where
  "timesAscending t [] = True"
| "timesAscending t (c # cs) = (t \<le> callTime c \<and> timesAscending (callTime c) cs)"

text \<open>Some call of the history runs at or after the instant \<open>g\<close>.\<close>

fun anyCallFrom :: "Time \<Rightarrow> hbCall list \<Rightarrow> bool" where
  "anyCallFrom g [] = False"
| "anyCallFrom g (c # cs) = (g \<le> callTime c \<or> anyCallFrom g cs)"

text \<open>
  Three records as the constructor builds them, with a threshold of 10: \<open>examplePeer\<close>
  is built at the genesis instant 0, \<open>latePeer\<close> at 5, after the genesis instant 0, and
  \<open>earlyPeer\<close> at 50, before the genesis instant 100.
\<close>

definition examplePeer :: heartbeatMessageInfo where
  "examplePeer = \<lparr> maxDurationPeerUnresponsive = 10, maxInactiveTime = 0,
     totalUpTime = 0, totalDownTime = 0, timeStamp = 0, isActive = False,
     receivedShardID = 0, computedShardID = 0, versionNumber = [], nodeDisplayName = [],
     isValidator = False, lastUptimeDowntime = 0, genesisTime = 0 \<rparr>"

definition latePeer :: heartbeatMessageInfo where
  "latePeer = examplePeer\<lparr> lastUptimeDowntime := 5 \<rparr>"

definition earlyPeer :: heartbeatMessageInfo where
  "earlyPeer = examplePeer\<lparr> timeStamp := 100, lastUptimeDowntime := 50,
     genesisTime := 100 \<rparr>"

section \<open>The ESDT system smart contract\<close>

text \<open>
  Source: package \<open>systemSmartContracts\<close>, type \<open>esdt\<close>.

  A byte slice is a \<open>string\<close> (a list of 8-bit characters), a \<open>*big.Int\<close> an
  \<open>int\<close>, \<open>uint32\<close> and \<open>uint64\<close> are words. \<open>big.NewInt(0).SetBytes(b)\<close> reads
  \<open>b\<close> as a big-endian unsigned number.
\<close>

type_synonym bytes = string

definition SetBytes :: "bytes \<Rightarrow> int" where
  "SetBytes b = foldl (\<lambda>acc ch. acc * 256 + of_char ch) 0 b"

datatype ReturnCode =
    Ok | FunctionNotFound | FunctionWrongSignature | UserError | OutOfGas | OutOfFunds

text \<open>
  The errors of package \<open>vm\<close> that the contract returns by name, and \<open>ErrExternal\<close>
  for an error produced by a collaborator (marshalizer, gas metering, transfer).
\<close>

datatype vmError =
    ErrNegativeOrZeroInitialSupply
  | ErrTokenAlreadyRegistered
  | ErrTokenNameNotHumanReadable
  | ErrInvalidNumOfArguments
  | ErrInvalidArgument
  | ErrNoTokenWithGivenName
  | ErrNotEnoughGas
  | ErrExternal string

text \<open>A return message is a literal of the source or the text of an error.\<close>

datatype message = Msg string | ErrMsg vmError

record ESDTData =
  OwnerAddress :: bytes
  TokenName :: bytes
  MintedValue :: int
  BurntValue :: int
  Burnable :: bool
  Mintable :: bool
  CanPause :: bool
  CanFreeze :: bool
  CanWipe :: bool
  Upgradable :: bool
  CanChangeOwner :: bool
  IsPaused :: bool

text \<open>
  \<open>ESDTConfig\<close> has an \<open>OwnerAddress\<close> field of its own; it is \<open>OwnerAddress_cfg\<close>
  here, since two records cannot share a field name.
\<close>

record ESDTConfig =
  OwnerAddress_cfg :: bytes
  BaseIssuingCost :: int
  MinTokenNameLength :: "32 word"
  MaxTokenNameLength :: "32 word"

definition minLengthForTokenName :: "32 word" where "minLengthForTokenName = 10"
definition maxLengthForTokenName :: "32 word" where "maxLengthForTokenName = 20"
definition configKeyPrefix :: bytes where "configKeyPrefix = ''esdtConfig''"
definition allIssuedTokens :: bytes where "allIssuedTokens = ''allIssuedTokens''"
definition burnable :: bytes where "burnable = ''canBurn''"
definition mintable :: bytes where "mintable = ''canMint''"
definition canPause :: bytes where "canPause = ''canPause''"
definition canFreeze :: bytes where "canFreeze = ''canFreeze''"
definition canWipe :: bytes where "canWipe = ''canWipe''"
definition canChangeOwner :: bytes where "canChangeOwner = ''canChangeOwner''"
definition upgradable :: bytes where "upgradable = ''canUpgrade''"

text \<open>
  The built-in function names of package \<open>core\<close> (\<open>core.BuiltInFunctionESDTTransfer\<close>
  and its siblings) are distinct string constants; the contract only concatenates them
  into payloads and compares them with each other. The payload text
  \<open>fn@hex(tokenName)\<close> or \<open>fn@hex(tokenName)@hex(value.Bytes())\<close> is kept as its parts.
\<close>

datatype builtInFunction =
    BuiltInFunctionESDTTransfer
  | BuiltInFunctionESDTBurn
  | BuiltInFunctionESDTFreeze
  | BuiltInFunctionESDTUnFreeze
  | BuiltInFunctionESDTWipe
  | BuiltInFunctionESDTPause
  | BuiltInFunctionESDTUnPause

datatype payload = Payload builtInFunction bytes "int option"

record transferCall =
  trDestination :: bytes
  trSender :: bytes
  trValue :: int
  trInput :: payload
  trGasLimit :: "64 word"

text \<open>
  The state behind \<open>vm.SystemEI\<close>, the environment interface the contract works
  through: the contract's storage, the gas left, and the logs of return messages,
  transfers and global settings. Whether a transfer fails is decided by the environment:
  \<open>transferError\<close> gives the error, if any, for each transfer.
\<close>

record systemEI =
  storage :: "bytes \<rightharpoonup> bytes"
  gasRemaining :: "64 word"
  returnMessages :: "message list"
  transfers :: "transferCall list"
  globalSettings :: "(bytes \<times> payload) list"
  transferError :: "transferCall \<Rightarrow> vmError option"

definition AddReturnMessage :: "message \<Rightarrow> systemEI \<Rightarrow> systemEI" where
  "AddReturnMessage m eei = eei\<lparr>returnMessages := returnMessages eei @ [m]\<rparr>"

text \<open>
  Modelled from the spec: \<open>SystemEI.GetStorage\<close> and \<open>SystemEI.SetStorage\<close>, "a storage
  capability (\<open>get(key) -> bytes\<close>, \<open>set(key, bytes)\<close>)": a key-value store, where a key
  never written reads as the empty byte string.
\<close>

definition GetStorage :: "bytes \<Rightarrow> systemEI \<Rightarrow> bytes" where
  "GetStorage key eei = (case storage eei key of None \<Rightarrow> [] | Some v \<Rightarrow> v)"

definition SetStorage :: "bytes \<Rightarrow> bytes \<Rightarrow> systemEI \<Rightarrow> systemEI" where
  "SetStorage key val eei = eei\<lparr>storage := (storage eei)(key \<mapsto> val)\<rparr>"

text \<open>
  Modelled from the spec: \<open>SystemEI.UseGas\<close>, "a gas-metering capability
  (\<open>useGas(amount) -> fails with OutOfGas\<close>)", "failure to deduct (insufficient budget)":
  the amount is deducted from the gas left, and the call fails, deducting nothing, when
  the gas left is less than the amount.
\<close>

definition UseGas :: "64 word \<Rightarrow> systemEI \<Rightarrow> vmError + systemEI" where
  "UseGas gas eei =
     (if gasRemaining eei < gas then Inl ErrNotEnoughGas
      else Inr (eei\<lparr>gasRemaining := gasRemaining eei - gas\<rparr>))"

text \<open>
  Modelled from the spec: \<open>SystemEI.Transfer\<close>, "a value-transfer capability
  (\<open>transfer(from, to, amount, payload, gasLimit) -> fails with TransferError\<close>)": a
  transfer the environment accepts is appended to the log of transfers.
\<close>

definition Transfer ::
  "bytes \<Rightarrow> bytes \<Rightarrow> int \<Rightarrow> payload \<Rightarrow> 64 word \<Rightarrow> systemEI \<Rightarrow> vmError + systemEI" where
  "Transfer destination sender val input gasLimit eei =
     (let t = \<lparr>trDestination = destination, trSender = sender, trValue = val,
                trInput = input, trGasLimit = gasLimit\<rparr>
      in case transferError eei t of
           Some err \<Rightarrow> Inl err
         | None \<Rightarrow> Inr (eei\<lparr>transfers := transfers eei @ [t]\<rparr>))"

text \<open>
  Modelled from the spec: \<open>SystemEI.SendGlobalSettingToAll\<close>, "a global-broadcast
  capability (\<open>sendGlobalSettingToAll(targetAddress, payload)\<close>)".
\<close>

definition SendGlobalSettingToAll :: "bytes \<Rightarrow> payload \<Rightarrow> systemEI \<Rightarrow> systemEI" where
  "SendGlobalSettingToAll sender input eei =
     eei\<lparr>globalSettings := globalSettings eei @ [(sender, input)]\<rparr>"

text \<open>
  \<open>marshal.Marshalizer\<close> is injected into the contract, and so a parameter here.
  \<open>Unmarshal(obj, buff)\<close> fills the object it is given: the function takes the object
  before the call and returns the object after it.
\<close>

record Marshalizer =
  MarshalData :: "ESDTData \<Rightarrow> vmError + bytes"
  UnmarshalData :: "ESDTData \<Rightarrow> bytes \<Rightarrow> vmError + ESDTData"
  MarshalConfig :: "ESDTConfig \<Rightarrow> vmError + bytes"
  UnmarshalConfig :: "ESDTConfig \<Rightarrow> bytes \<Rightarrow> vmError + ESDTConfig"

record GasCost =
  ESDTIssue :: "64 word"
  ESDTOperations :: "64 word"

record esdt =
  gasCost :: GasCost
  baseIssuingCost :: int
  ownerAddress :: bytes
  eSDTSCAddress :: bytes
  marshalizer :: Marshalizer

record ContractCallInput =
  CallerAddr :: bytes
  Arguments :: "bytes list"
  CallValue :: int
  GasProvided :: "64 word"

text \<open>
  The operations. Each takes the contract \<open>e\<close>, the call input and the state of the
  environment, and returns the return code with the state it leaves. The indexing
  \<open>args.Arguments[i]\<close> is \<open>Arguments args ! i\<close>: every operation checks the number of
  arguments before it reads one.

  \<open>Execute\<close>, which hands a call to its operation by the function name once the
  contract is enabled, is not part of the model, nor are \<open>issueProtected\<close>,
  \<open>configChange\<close>, \<open>claim\<close> and the two queries: the properties below are about the
  operations themselves.
\<close>

definition saveToken :: "esdt \<Rightarrow> ESDTData \<Rightarrow> systemEI \<Rightarrow> vmError + systemEI" where
  "saveToken e token eei =
     (case MarshalData (marshalizer e) token of
        Inl err \<Rightarrow> Inl err
      | Inr marshaledData \<Rightarrow> Inr (SetStorage (TokenName token) marshaledData eei))"

definition emptyESDTData :: ESDTData where
  "emptyESDTData = \<lparr> OwnerAddress = [], TokenName = [], MintedValue = 0, BurntValue = 0,
     Burnable = False, Mintable = False, CanPause = False, CanFreeze = False,
     CanWipe = False, Upgradable = False, CanChangeOwner = False, IsPaused = False \<rparr>"

definition getExistingToken :: "esdt \<Rightarrow> bytes \<Rightarrow> systemEI \<Rightarrow> vmError + ESDTData" where
  "getExistingToken e tokenName eei =
     (let marshalledData = GetStorage tokenName eei
      in if length marshalledData = 0 then Inl ErrNoTokenWithGivenName
         else UnmarshalData (marshalizer e) emptyESDTData marshalledData)"

definition getESDTConfig :: "esdt \<Rightarrow> systemEI \<Rightarrow> vmError + ESDTConfig" where
  "getESDTConfig e eei =
     (let esdtConfig = \<lparr> OwnerAddress_cfg = ownerAddress e,
                         BaseIssuingCost = baseIssuingCost e,
                         MinTokenNameLength = minLengthForTokenName,
                         MaxTokenNameLength = maxLengthForTokenName \<rparr>;
          marshalledData = GetStorage configKeyPrefix eei
      in if length marshalledData = 0 then Inr esdtConfig
         else UnmarshalConfig (marshalizer e) esdtConfig marshalledData)"

definition saveESDTConfig :: "esdt \<Rightarrow> ESDTConfig \<Rightarrow> systemEI \<Rightarrow> vmError + systemEI" where
  "saveESDTConfig e esdtConfig eei =
     (case MarshalConfig (marshalizer e) esdtConfig of
        Inl err \<Rightarrow> Inl err
      | Inr marshaledData \<Rightarrow> Inr (SetStorage configKeyPrefix marshaledData eei))"

definition init :: "esdt \<Rightarrow> systemEI \<Rightarrow> ReturnCode \<times> systemEI" where
  "init e eei =
     (let scConfig = \<lparr> OwnerAddress_cfg = ownerAddress e,
                       BaseIssuingCost = baseIssuingCost e,
                       MinTokenNameLength = minLengthForTokenName,
                       MaxTokenNameLength = maxLengthForTokenName \<rparr>
      in case saveESDTConfig e scConfig eei of
           Inl err \<Rightarrow> (UserError, eei)
         | Inr eei1 \<Rightarrow> (Ok, eei1))"

fun isTokenNameHumanReadable :: "bytes \<Rightarrow> bool" where
  "isTokenNameHumanReadable [] = True"
| "isTokenNameHumanReadable (ch # rest) =
     (let isSmallCharacter = (ch \<ge> CHR ''a'' \<and> ch \<le> CHR ''z'');
          isBigCharacter = (ch \<ge> CHR ''A'' \<and> ch \<le> CHR ''Z'');
          isNumber = (ch \<ge> CHR ''0'' \<and> ch \<le> CHR ''9'');
          isReadable = (isSmallCharacter \<or> isBigCharacter \<or> isNumber)
      in if \<not> isReadable then False else isTokenNameHumanReadable rest)"

definition checkAndGetSetting :: "bytes \<Rightarrow> vmError + bool" where
  "checkAndGetSetting arg =
     (if arg = ''true'' then Inr True
      else if arg = ''false'' then Inr False
      else Inl ErrInvalidArgument)"

text \<open>The loop of \<open>upgradeProperties\<close>, over the pairs of an argument list of even length.\<close>

fun upgradePropertiesLoop :: "ESDTData \<Rightarrow> bytes list \<Rightarrow> vmError + ESDTData" where
  "upgradePropertiesLoop token (optionalArg # valArg # rest) =
     (case checkAndGetSetting valArg of
        Inl err \<Rightarrow> Inl err
      | Inr val \<Rightarrow>
          if optionalArg = burnable then upgradePropertiesLoop (token\<lparr>Burnable := val\<rparr>) rest
          else if optionalArg = mintable then upgradePropertiesLoop (token\<lparr>Mintable := val\<rparr>) rest
          else if optionalArg = canPause then upgradePropertiesLoop (token\<lparr>CanPause := val\<rparr>) rest
          else if optionalArg = canFreeze then upgradePropertiesLoop (token\<lparr>CanFreeze := val\<rparr>) rest
          else if optionalArg = canWipe then upgradePropertiesLoop (token\<lparr>CanWipe := val\<rparr>) rest
          else if optionalArg = upgradable then upgradePropertiesLoop (token\<lparr>Upgradable := val\<rparr>) rest
          else if optionalArg = canChangeOwner
            then upgradePropertiesLoop (token\<lparr>CanChangeOwner := val\<rparr>) rest
          else Inl ErrInvalidArgument)"
| "upgradePropertiesLoop token rest = Inr token"

definition upgradeProperties :: "ESDTData \<Rightarrow> bytes list \<Rightarrow> vmError + ESDTData" where
  "upgradeProperties token args =
     (if length args = 0 then Inr token
      else if length args mod 2 \<noteq> 0 then Inl ErrInvalidNumOfArguments
      else upgradePropertiesLoop token args)"

definition addToIssuedTokens :: "bytes \<Rightarrow> systemEI \<Rightarrow> systemEI" where
  "addToIssuedTokens newToken eei =
     (let allTokens = GetStorage allIssuedTokens eei
      in if length allTokens = 0 then SetStorage allIssuedTokens newToken eei
         else SetStorage allIssuedTokens (allTokens @ ''@'' @ newToken) eei)"

definition issueToken ::
  "esdt \<Rightarrow> bytes \<Rightarrow> bytes list \<Rightarrow> systemEI \<Rightarrow> vmError option \<times> systemEI" where
  "issueToken e owner arguments eei =
     (let tokenName = arguments ! 0;
          initialSupply = SetBytes (arguments ! 1)
      in if initialSupply \<le> 0 then (Some ErrNegativeOrZeroInitialSupply, eei)
         else if length (GetStorage tokenName eei) > 0 then (Some ErrTokenAlreadyRegistered, eei)
         else if \<not> isTokenNameHumanReadable tokenName
           then (Some ErrTokenNameNotHumanReadable, eei)
         else
           let newESDTToken = \<lparr> OwnerAddress = owner, TokenName = tokenName,
                 MintedValue = initialSupply, BurntValue = 0,
                 Burnable = False, Mintable = False, CanPause = False, CanFreeze = False,
                 CanWipe = False, Upgradable = True, CanChangeOwner = False,
                 IsPaused = False \<rparr>
           in case upgradeProperties newESDTToken (drop 2 arguments) of
                Inl err \<Rightarrow> (Some err, eei)
              | Inr token \<Rightarrow>
                 (case saveToken e token eei of
                    Inl err \<Rightarrow> (Some err, eei)
                  | Inr eei1 \<Rightarrow>
                     (case Transfer owner (eSDTSCAddress e) 0
                             (Payload BuiltInFunctionESDTTransfer tokenName (Some initialSupply))
                             0 eei1 of
                        Inl err \<Rightarrow> (Some err, eei1)
                      | Inr eei2 \<Rightarrow> (None, addToIssuedTokens tokenName eei2))))"

definition issue :: "esdt \<Rightarrow> ContractCallInput \<Rightarrow> systemEI \<Rightarrow> ReturnCode \<times> systemEI" where
  "issue e args eei =
     (if length (Arguments args) < 2
        then (FunctionWrongSignature, AddReturnMessage (Msg ''not enough arguments'') eei)
      else case UseGas (ESDTIssue (gasCost e)) eei of
        Inl err \<Rightarrow> (OutOfGas, AddReturnMessage (Msg ''not enough gas'') eei)
      | Inr eei1 \<Rightarrow>
         (case getESDTConfig e eei1 of
            Inl err \<Rightarrow> (UserError, AddReturnMessage (ErrMsg err) eei1)
          | Inr esdtConfig \<Rightarrow>
             if int (length (Arguments args ! 0)) < uint (MinTokenNameLength esdtConfig) \<or>
                int (length (Arguments args ! 0)) > uint (MaxTokenNameLength esdtConfig)
               then (FunctionWrongSignature,
                     AddReturnMessage (Msg ''token name length not in parameters'') eei1)
             else if CallValue args \<noteq> BaseIssuingCost esdtConfig
               then (OutOfFunds,
                     AddReturnMessage (Msg ''callValue not equals with baseIssuingCost'') eei1)
             else (case issueToken e (CallerAddr args) (Arguments args) eei1 of
                     (Some err, eei2) \<Rightarrow> (UserError, AddReturnMessage (ErrMsg err) eei2)
                   | (None, eei2) \<Rightarrow> (Ok, eei2))))"

definition burn :: "esdt \<Rightarrow> ContractCallInput \<Rightarrow> systemEI \<Rightarrow> ReturnCode \<times> systemEI" where
  "burn e args eei =
     (if length (Arguments args) \<noteq> 2
        then (FunctionWrongSignature,
              AddReturnMessage (Msg ''number of arguments must be equal with 2'') eei)
      else if CallValue args \<noteq> 0
        then (OutOfFunds, AddReturnMessage (Msg ''callValue must be 0'') eei)
      else
        let burntValue = SetBytes (Arguments args ! 1)
        in if burntValue \<le> 0
             then (UserError, AddReturnMessage (Msg ''negative or 0 value to burn'') eei)
           else case getExistingToken e (Arguments args ! 0) eei of
             Inl err \<Rightarrow> (UserError, AddReturnMessage (ErrMsg err) eei)
           | Inr token0 \<Rightarrow>
              if \<not> Burnable token0
                then (UserError, AddReturnMessage (Msg ''token is not burnable'') eei)
              else
                let token = token0\<lparr>BurntValue := BurntValue token0 + burntValue\<rparr>
                in (case saveToken e token eei of
                      Inl err \<Rightarrow> (UserError, AddReturnMessage (ErrMsg err) eei)
                    | Inr eei1 \<Rightarrow>
                       (case UseGas (GasProvided args) eei1 of
                          Inl err \<Rightarrow> (OutOfGas, AddReturnMessage (ErrMsg err) eei1)
                        | Inr eei2 \<Rightarrow> (Ok, eei2))))"

text \<open>
  \<open>basicOwnershipChecks\<close> returns a token together with \<open>Ok\<close>, or no token and another
  return code: \<open>Inr token\<close> is the first, \<open>Inl code\<close> the second.
\<close>

definition basicOwnershipChecks ::
  "esdt \<Rightarrow> ContractCallInput \<Rightarrow> systemEI \<Rightarrow> (ReturnCode + ESDTData) \<times> systemEI" where
  "basicOwnershipChecks e args eei =
     (if CallValue args \<noteq> 0
        then (Inl OutOfFunds, AddReturnMessage (Msg ''callValue must be 0'') eei)
      else case UseGas (ESDTOperations (gasCost e)) eei of
        Inl err \<Rightarrow> (Inl OutOfGas, AddReturnMessage (Msg ''not enough gas'') eei)
      | Inr eei1 \<Rightarrow>
         (case getExistingToken e (Arguments args ! 0) eei1 of
            Inl err \<Rightarrow> (Inl UserError, AddReturnMessage (ErrMsg err) eei1)
          | Inr token \<Rightarrow>
             if OwnerAddress token \<noteq> CallerAddr args
               then (Inl UserError, AddReturnMessage (Msg ''can be called by owner only'') eei1)
             else (Inr token, eei1)))"

definition mint :: "esdt \<Rightarrow> ContractCallInput \<Rightarrow> systemEI \<Rightarrow> ReturnCode \<times> systemEI" where
  "mint e args eei =
     (if length (Arguments args) < 2 \<or> length (Arguments args) > 3
        then (FunctionWrongSignature,
              AddReturnMessage (Msg ''accepted arguments number 2/3'') eei)
      else case basicOwnershipChecks e args eei of
        (Inl returnCode, eei1) \<Rightarrow> (returnCode, eei1)
      | (Inr token0, eei1) \<Rightarrow>
         (let mintValue = SetBytes (Arguments args ! 1)
          in if mintValue \<le> 0
               then (UserError, AddReturnMessage (Msg ''negative or zero mint value'') eei1)
             else if \<not> Mintable token0
               then (UserError, AddReturnMessage (Msg ''token is not mintable'') eei1)
             else
               let token = token0\<lparr>MintedValue := MintedValue token0 + mintValue\<rparr>
               in (case saveToken e token eei1 of
                     Inl err \<Rightarrow> (UserError, AddReturnMessage (ErrMsg err) eei1)
                   | Inr eei2 \<Rightarrow>
                      if length (Arguments args) = 3 \<and>
                         length (Arguments args ! 2) \<noteq> length (CallerAddr args)
                        then (UserError,
                              AddReturnMessage (Msg ''destination address of invalid length'') eei2)
                      else
                        let destination =
                              (if length (Arguments args) = 3 then Arguments args ! 2
                               else OwnerAddress token)
                        in (case Transfer destination (eSDTSCAddress e) 0
                                   (Payload BuiltInFunctionESDTTransfer (TokenName token)
                                      (Some mintValue))
                                   0 eei2 of
                              Inl err \<Rightarrow> (UserError, AddReturnMessage (ErrMsg err) eei2)
                            | Inr eei3 \<Rightarrow> (Ok, eei3)))))"

definition toggleFreeze ::
  "esdt \<Rightarrow> ContractCallInput \<Rightarrow> builtInFunction \<Rightarrow> systemEI \<Rightarrow> ReturnCode \<times> systemEI" where
  "toggleFreeze e args builtInFunc eei =
     (if length (Arguments args) \<noteq> 2
        then (FunctionWrongSignature,
              AddReturnMessage (Msg ''invalid number of arguments, wanted 2'') eei)
      else case basicOwnershipChecks e args eei of
        (Inl returnCode, eei1) \<Rightarrow> (returnCode, eei1)
      | (Inr token, eei1) \<Rightarrow>
         if \<not> CanFreeze token
           then (UserError, AddReturnMessage (Msg ''cannot freeze'') eei1)
         else (case Transfer (Arguments args ! 1) (eSDTSCAddress e) 0
                      (Payload builtInFunc (TokenName token) None) 0 eei1 of
                 Inl err \<Rightarrow> (UserError, AddReturnMessage (ErrMsg err) eei1)
               | Inr eei2 \<Rightarrow> (Ok, eei2)))"

definition wipe :: "esdt \<Rightarrow> ContractCallInput \<Rightarrow> systemEI \<Rightarrow> ReturnCode \<times> systemEI" where
  "wipe e args eei =
     (if length (Arguments args) \<noteq> 2
        then (FunctionWrongSignature,
              AddReturnMessage (Msg ''invalid number of arguments, wanted 2'') eei)
      else case basicOwnershipChecks e args eei of
        (Inl returnCode, eei1) \<Rightarrow> (returnCode, eei1)
      | (Inr token, eei1) \<Rightarrow>
         if \<not> CanWipe token
           then (UserError, AddReturnMessage (Msg ''cannot wipe'') eei1)
         else if length (Arguments args ! 1) \<noteq> length (CallerAddr args)
           then (UserError, AddReturnMessage (Msg ''invalid arguments'') eei1)
         else (case Transfer (Arguments args ! 1) (eSDTSCAddress e) 0
                      (Payload BuiltInFunctionESDTWipe (TokenName token) None) 0 eei1 of
                 Inl err \<Rightarrow> (UserError, AddReturnMessage (ErrMsg err) eei1)
               | Inr eei2 \<Rightarrow> (Ok, eei2)))"

definition togglePause ::
  "esdt \<Rightarrow> ContractCallInput \<Rightarrow> builtInFunction \<Rightarrow> systemEI \<Rightarrow> ReturnCode \<times> systemEI" where
  "togglePause e args builtInFunc eei =
     (if length (Arguments args) \<noteq> 1
        then (FunctionWrongSignature,
              AddReturnMessage (Msg ''invalid number of arguments, wanted 1'') eei)
      else case basicOwnershipChecks e args eei of
        (Inl returnCode, eei1) \<Rightarrow> (returnCode, eei1)
      | (Inr token0, eei1) \<Rightarrow>
         if \<not> CanPause token0
           then (UserError, AddReturnMessage (Msg ''cannot pause/un-pause'') eei1)
         else if IsPaused token0 \<and> builtInFunc = BuiltInFunctionESDTPause
           then (UserError,
                 AddReturnMessage (Msg ''cannot pause an already paused contract'') eei1)
         else if \<not> IsPaused token0 \<and> builtInFunc = BuiltInFunctionESDTUnPause
           then (UserError,
                 AddReturnMessage (Msg ''cannot unPause an already un-paused contract'') eei1)
         else
           let token = token0\<lparr>IsPaused := \<not> IsPaused token0\<rparr>
           in (case saveToken e token eei1 of
                 Inl err \<Rightarrow> (UserError, AddReturnMessage (ErrMsg err) eei1)
               | Inr eei2 \<Rightarrow>
                  (Ok, SendGlobalSettingToAll (eSDTSCAddress e)
                         (Payload builtInFunc (TokenName token) None) eei2)))"

definition transferOwnership ::
  "esdt \<Rightarrow> ContractCallInput \<Rightarrow> systemEI \<Rightarrow> ReturnCode \<times> systemEI" where
  "transferOwnership e args eei =
     (if length (Arguments args) \<noteq> 2
        then (FunctionWrongSignature,
              AddReturnMessage (Msg ''expected num of arguments 2'') eei)
      else case basicOwnershipChecks e args eei of
        (Inl returnCode, eei1) \<Rightarrow> (returnCode, eei1)
      | (Inr token0, eei1) \<Rightarrow>
         if \<not> CanChangeOwner token0
           then (UserError, AddReturnMessage (Msg ''cannot change owner of the token'') eei1)
         else if length (Arguments args ! 1) \<noteq> length (CallerAddr args)
           then (UserError,
                 AddReturnMessage (Msg ''destination address of invalid length'') eei1)
         else
           let token = token0\<lparr>OwnerAddress := Arguments args ! 1\<rparr>
           in (case saveToken e token eei1 of
                 Inl err \<Rightarrow> (UserError, AddReturnMessage (ErrMsg err) eei1)
               | Inr eei2 \<Rightarrow> (Ok, eei2)))"

definition esdtControlChanges ::
  "esdt \<Rightarrow> ContractCallInput \<Rightarrow> systemEI \<Rightarrow> ReturnCode \<times> systemEI" where
  "esdtControlChanges e args eei =
     (if length (Arguments args) < 2
        then (FunctionWrongSignature, AddReturnMessage (Msg ''not enough arguments'') eei)
      else case basicOwnershipChecks e args eei of
        (Inl returnCode, eei1) \<Rightarrow> (returnCode, eei1)
      | (Inr token0, eei1) \<Rightarrow>
         if \<not> Upgradable token0
           then (UserError, AddReturnMessage (Msg ''token is not upgradable'') eei1)
         else (case upgradeProperties token0 (drop 1 (Arguments args)) of
                 Inl err \<Rightarrow> (UserError, AddReturnMessage (ErrMsg err) eei1)
               | Inr token \<Rightarrow>
                  (case saveToken e token eei1 of
                     Inl err \<Rightarrow> (UserError, AddReturnMessage (ErrMsg err) eei1)
                   | Inr eei2 \<Rightarrow> (Ok, eei2))))"

section \<open>Concrete values\<close>

text \<open>
  A contract, an environment and a marshalizer to evaluate the operations on. The
  marshalizer is a pair of tables: it writes each token and each configuration it knows
  as the bytes beside it, reads them back, and fails on anything else.
\<close>

definition exampleToken :: ESDTData where
  "exampleToken = \<lparr> OwnerAddress = ''owner'', TokenName = ''ABCDEF1234'',
     MintedValue = 1000, BurntValue = 0,
     Burnable = True, Mintable = True, CanPause = True, CanFreeze = True,
     CanWipe = True, Upgradable = True, CanChangeOwner = True, IsPaused = False \<rparr>"

definition exampleIssued :: ESDTData where
  "exampleIssued = \<lparr> OwnerAddress = ''owner'', TokenName = ''ABC123'',
     MintedValue = 1000, BurntValue = 0,
     Burnable = False, Mintable = False, CanPause = False, CanFreeze = False,
     CanWipe = False, Upgradable = True, CanChangeOwner = False, IsPaused = False \<rparr>"

definition exampleTokens :: "(bytes \<times> ESDTData) list" where
  "exampleTokens =
     [(''token0'', exampleToken),
      (''token0-minted-1005'', exampleToken\<lparr>MintedValue := 1005\<rparr>),
      (''token0-burnt-7'', exampleToken\<lparr>BurntValue := 7\<rparr>),
      (''token0-paused'', exampleToken\<lparr>IsPaused := True\<rparr>),
      (''issued'', exampleIssued)]"

definition exampleConfig :: ESDTConfig where
  "exampleConfig = \<lparr> OwnerAddress_cfg = ''admin'', BaseIssuingCost = 5,
     MinTokenNameLength = 3, MaxTokenNameLength = 20 \<rparr>"

definition exampleConfigs :: "(bytes \<times> ESDTConfig) list" where
  "exampleConfigs =
     [(''config-3-20'', exampleConfig),
      (''config-10-20'', exampleConfig\<lparr>MinTokenNameLength := 10\<rparr>)]"

definition exampleMarshalizer :: Marshalizer where
  "exampleMarshalizer = \<lparr>
     MarshalData = (\<lambda>token.
        case find (\<lambda>entry. snd entry = token) exampleTokens of
          Some entry \<Rightarrow> Inr (fst entry)
        | None \<Rightarrow> Inl (ErrExternal ''marshal'')),
     UnmarshalData = (\<lambda>obj buff.
        case map_of exampleTokens buff of
          Some token \<Rightarrow> Inr token
        | None \<Rightarrow> Inl (ErrExternal ''unmarshal'')),
     MarshalConfig = (\<lambda>cfg.
        case find (\<lambda>entry. snd entry = cfg) exampleConfigs of
          Some entry \<Rightarrow> Inr (fst entry)
        | None \<Rightarrow> Inl (ErrExternal ''marshal'')),
     UnmarshalConfig = (\<lambda>obj buff.
        case map_of exampleConfigs buff of
          Some cfg \<Rightarrow> Inr cfg
        | None \<Rightarrow> Inl (ErrExternal ''unmarshal'')) \<rparr>"

definition exampleContract :: esdt where
  "exampleContract = \<lparr> gasCost = \<lparr> ESDTIssue = 50, ESDTOperations = 10 \<rparr>,
     baseIssuingCost = 5, ownerAddress = ''admin'', eSDTSCAddress = ''esdtsc'',
     marshalizer = exampleMarshalizer \<rparr>"

text \<open>
  Three environments with 100 units of gas in which every transfer succeeds: one with
  nothing stored, one that holds \<open>exampleToken\<close>, and one that holds the configuration
  with name lengths from 3 to 20.
\<close>

definition emptyEei :: systemEI where
  "emptyEei = \<lparr> storage = Map.empty, gasRemaining = 100, returnMessages = [],
     transfers = [], globalSettings = [], transferError = (\<lambda>t. None) \<rparr>"

definition exampleEei :: systemEI where
  "exampleEei = emptyEei\<lparr> storage := [''ABCDEF1234'' \<mapsto> ''token0''] \<rparr>"

definition configuredEei :: systemEI where
  "configuredEei = emptyEei\<lparr> storage := [''esdtConfig'' \<mapsto> ''config-3-20''] \<rparr>"

text \<open>
  The call inputs: \<open>issue\<close> of \<open>ABC123\<close> with supply 1000 (the bytes 03 E8) and value
  5; a call on \<open>exampleToken\<close> by \<open>caller\<close> with the arguments \<open>rest\<close> after the token
  name, no value attached and \<open>gas\<close> provided.
\<close>

definition issueABC123 :: ContractCallInput where
  "issueABC123 = \<lparr> CallerAddr = ''owner'',
     Arguments = [''ABC123'', [CHR 0x03, CHR 0xE8]], CallValue = 5, GasProvided = 0 \<rparr>"

definition callOnToken :: "bytes \<Rightarrow> bytes list \<Rightarrow> 64 word \<Rightarrow> ContractCallInput" where
  "callOnToken caller rest gas = \<lparr> CallerAddr = caller,
     Arguments = ''ABCDEF1234'' # rest, CallValue = 0, GasProvided = gas \<rparr>"

section \<open>Properties of the liveness record\<close>

lemmas heartbeat_defs = computeActive_def HeartbeatReceived_def updateFields_def
  updateTimes_def updateUpAndDownTime_def updateMaxInactiveTimeDuration_def
  computeValidDuration_def maxDuration_def

lemmas duration_defs = Sub_def wrapInt64_def

lemmas peer_defs = examplePeer_def latePeer_def earlyPeer_def

text \<open>
  \<open>Sub\<close> keeps the sign of the difference, and is the difference when that is a
  \<open>Duration\<close>; \<open>wrapInt64\<close> leaves a \<open>Duration\<close> as it is.
\<close>

lemma Sub_negative: "(Sub t u < 0) = (t < u)"
  by (simp add: Sub_def Let_def)

lemma Sub_exact:
  "- 9223372036854775808 \<le> t - u \<Longrightarrow> t - u \<le> 9223372036854775807 \<Longrightarrow> Sub t u = t - u"
  by (simp add: Sub_def Let_def)

lemma wrapInt64_exact:
  "- 9223372036854775808 \<le> x \<Longrightarrow> x \<le> 9223372036854775807 \<Longrightarrow> wrapInt64 x = x"
  by (simp add: wrapInt64_def)

lemma applyCall_maxInactiveTime: "maxInactiveTime h \<le> maxInactiveTime (applyCall c h)"
  by (cases c) (simp_all add: heartbeat_defs Let_def)

lemma applyCalls_maxInactiveTime: "maxInactiveTime h \<le> maxInactiveTime (applyCalls cs h)"
proof (induction cs arbitrary: h)
  case Nil
  show ?case by simp
next
  case (Cons c cs)
  have "maxInactiveTime h \<le> maxInactiveTime (applyCall c h)"
    by (rule applyCall_maxInactiveTime)
  also have "\<dots> \<le> maxInactiveTime (applyCalls cs (applyCall c h))"
    by (rule Cons.IH)
  finally show ?case by simp
qed

lemma applyCall_genesisTime: "genesisTime (applyCall c h) = genesisTime h"
  by (cases c) (simp_all add: heartbeat_defs Let_def)

lemma applyCalls_genesisTime: "genesisTime (applyCalls cs h) = genesisTime h"
  by (induction cs arbitrary: h) (simp_all add: applyCall_genesisTime)

lemma applyCalls_append: "applyCalls (cs @ ds) h = applyCalls ds (applyCalls cs h)"
  by (induction cs arbitrary: h) simp_all

lemma timesAscending_last: "timesAscending t (cs @ [c]) \<Longrightarrow> t \<le> callTime c"
proof (induction cs arbitrary: t)
  case Nil
  then show ?case by simp
next
  case (Cons c0 cs)
  then have "t \<le> callTime c0" and "timesAscending (callTime c0) (cs @ [c])" by simp_all
  with Cons.IH [of "callTime c0"] show ?case by simp
qed

text \<open>
  What one call does to the accounting. A call before genesis leaves it alone. A call at
  or after genesis, and not before the last settlement, adds the interval since the last
  settlement (or since genesis, if the last settlement precedes it) to one of the two
  totals, and moves the settlement instant to its own time; the totals stay what the
  integers say as long as the time counted so far is a \<open>Duration\<close>.
\<close>

lemma applyCall_skip:
  "callTime c < genesisTime h \<Longrightarrow>
   totalUpTime (applyCall c h) = totalUpTime h \<and>
   totalDownTime (applyCall c h) = totalDownTime h \<and>
   lastUptimeDowntime (applyCall c h) = lastUptimeDowntime h"
  by (cases c) (simp_all add: heartbeat_defs Let_def Sub_negative)

lemma updateUpAndDownTime_settle:
  assumes up: "0 \<le> totalUpTime h" and down: "0 \<le> totalDownTime h"
    and inv: "totalUpTime h + totalDownTime h = max (lastUptimeDowntime h) (genesisTime h) - b"
    and le: "max (lastUptimeDowntime h) (genesisTime h) \<le> t"
    and fits: "t - b \<le> 9223372036854775807"
  shows "0 \<le> totalUpTime (updateUpAndDownTime p t h) \<and>
         0 \<le> totalDownTime (updateUpAndDownTime p t h) \<and>
         totalUpTime (updateUpAndDownTime p t h) + totalDownTime (updateUpAndDownTime p t h)
           = t - b \<and>
         lastUptimeDowntime (updateUpAndDownTime p t h) = t \<and>
         genesisTime (updateUpAndDownTime p t h) = genesisTime h"
proof -
  let ?l = "max (lastUptimeDowntime h) (genesisTime h)"
  from up down inv have b: "b \<le> ?l" by simp
  have d: "Sub t ?l = t - ?l"
    using le b fits by (intro Sub_exact) linarith+
  have d0: "0 \<le> t - ?l" using le by simp
  have wu: "wrapInt64 (totalUpTime h + (t - ?l)) = totalUpTime h + (t - ?l)"
    using up down inv d0 fits by (intro wrapInt64_exact) linarith+
  have wd: "wrapInt64 (totalDownTime h + (t - ?l)) = totalDownTime h + (t - ?l)"
    using up down inv d0 fits by (intro wrapInt64_exact) linarith+
  show ?thesis
  proof (cases "lastUptimeDowntime h < genesisTime h")
    case True
    then have l: "?l = genesisTime h" by simp
    from True d d0 wu wd up down inv show ?thesis
      by (simp add: updateUpAndDownTime_def maxDuration_def Let_def Sub_negative l)
  next
    case False
    then have l: "?l = lastUptimeDowntime h" by simp
    from False d d0 wu wd up down inv show ?thesis
      by (simp add: updateUpAndDownTime_def maxDuration_def Let_def Sub_negative l)
  qed
qed


lemma updateMaxInactiveTimeDuration_fields:
  "totalUpTime (updateMaxInactiveTimeDuration t h) = totalUpTime h"
  "totalDownTime (updateMaxInactiveTimeDuration t h) = totalDownTime h"
  "lastUptimeDowntime (updateMaxInactiveTimeDuration t h) = lastUptimeDowntime h"
  "genesisTime (updateMaxInactiveTimeDuration t h) = genesisTime h"
  by (simp_all add: updateMaxInactiveTimeDuration_def Let_def)

lemma updateTimes_settle:
  assumes up: "0 \<le> totalUpTime h" and down: "0 \<le> totalDownTime h"
    and inv: "totalUpTime h + totalDownTime h = max (lastUptimeDowntime h) (genesisTime h) - b"
    and le: "lastUptimeDowntime h \<le> t"
    and g: "genesisTime h \<le> t"
    and fits: "t - b \<le> 9223372036854775807"
  shows "0 \<le> totalUpTime (updateTimes t p h) \<and>
         0 \<le> totalDownTime (updateTimes t p h) \<and>
         totalUpTime (updateTimes t p h) + totalDownTime (updateTimes t p h) = t - b \<and>
         lastUptimeDowntime (updateTimes t p h) = t"
proof -
  let ?h = "updateMaxInactiveTimeDuration t h"
  have u: "updateTimes t p h = updateUpAndDownTime p t ?h"
    using g by (simp add: updateTimes_def Sub_negative)
  have "0 \<le> totalUpTime ?h" "0 \<le> totalDownTime ?h"
      "totalUpTime ?h + totalDownTime ?h = max (lastUptimeDowntime ?h) (genesisTime ?h) - b"
      "max (lastUptimeDowntime ?h) (genesisTime ?h) \<le> t"
    using up down inv le g by (simp_all add: updateMaxInactiveTimeDuration_fields)
  from updateUpAndDownTime_settle [OF this fits, of p] show ?thesis
    by (simp add: u)
qed

lemma applyCall_settle:
  assumes up: "0 \<le> totalUpTime h" and down: "0 \<le> totalDownTime h"
    and inv: "totalUpTime h + totalDownTime h = max (lastUptimeDowntime h) (genesisTime h) - b"
    and le: "lastUptimeDowntime h \<le> callTime c"
    and g: "genesisTime h \<le> callTime c"
    and fits: "callTime c - b \<le> 9223372036854775807"
  shows "0 \<le> totalUpTime (applyCall c h) \<and>
         0 \<le> totalDownTime (applyCall c h) \<and>
         totalUpTime (applyCall c h) + totalDownTime (applyCall c h) = callTime c - b \<and>
         lastUptimeDowntime (applyCall c h) = callTime c"
proof (cases c)
  case (CallHeartbeatReceived t cs rs v n)
  let ?h = "h\<lparr>isActive := True\<rparr>"
  let ?p = "isActive h \<and> computeValidDuration t h"
  have "0 \<le> totalUpTime ?h" "0 \<le> totalDownTime ?h"
      "totalUpTime ?h + totalDownTime ?h = max (lastUptimeDowntime ?h) (genesisTime ?h) - b"
      "lastUptimeDowntime ?h \<le> t" "genesisTime ?h \<le> t" "t - b \<le> 9223372036854775807"
    using up down inv le g fits CallHeartbeatReceived by simp_all
  from updateTimes_settle [OF this, of ?p] CallHeartbeatReceived show ?thesis
    by (simp add: HeartbeatReceived_def updateFields_def Let_def)
next
  case (CallComputeActive t)
  let ?h = "h\<lparr>isActive := isActive h \<and> computeValidDuration t h\<rparr>"
  have "0 \<le> totalUpTime ?h" "0 \<le> totalDownTime ?h"
      "totalUpTime ?h + totalDownTime ?h = max (lastUptimeDowntime ?h) (genesisTime ?h) - b"
      "lastUptimeDowntime ?h \<le> t" "genesisTime ?h \<le> t" "t - b \<le> 9223372036854775807"
    using up down inv le g fits CallComputeActive by simp_all
  from updateTimes_settle [OF this, of "isActive ?h"] CallComputeActive show ?thesis
    by (simp add: computeActive_def Let_def)
qed

text \<open>
  The accounting invariant: the two totals are not negative and add up to the time from
  \<open>b\<close>, the instant the counting started at, to the last settlement (or to genesis,
  while nothing is settled). A call that does not run before the last settlement keeps
  it.
\<close>

lemma applyCall_settled:
  assumes up: "0 \<le> totalUpTime h" and down: "0 \<le> totalDownTime h"
    and inv: "totalUpTime h + totalDownTime h = max (lastUptimeDowntime h) (genesisTime h) - b"
    and le: "lastUptimeDowntime h \<le> callTime c"
    and fits: "callTime c - b \<le> 9223372036854775807"
  shows "0 \<le> totalUpTime (applyCall c h) \<and>
         0 \<le> totalDownTime (applyCall c h) \<and>
         totalUpTime (applyCall c h) + totalDownTime (applyCall c h)
           = max (lastUptimeDowntime (applyCall c h)) (genesisTime h) - b \<and>
         lastUptimeDowntime (applyCall c h) \<le> callTime c"
proof (cases "genesisTime h \<le> callTime c")
  case True
  from applyCall_settle [OF up down inv le True fits] True show ?thesis by simp
next
  case False
  then have "callTime c < genesisTime h" by simp
  from applyCall_skip [OF this] up down inv le show ?thesis by simp
qed

lemma applyCalls_settled:
  assumes "0 \<le> totalUpTime h" and "0 \<le> totalDownTime h"
    and "totalUpTime h + totalDownTime h = max (lastUptimeDowntime h) (genesisTime h) - b"
    and "lastUptimeDowntime h \<le> t"
    and "timesAscending t (cs @ [c])"
    and "genesisTime h \<le> callTime c"
    and "callTime c - b \<le> 9223372036854775807"
  shows "totalUpTime (applyCalls (cs @ [c]) h) + totalDownTime (applyCalls (cs @ [c]) h) =
           callTime c - b"
  using assms
proof (induction cs arbitrary: h t)
  case Nil
  from Nil.prems have le: "lastUptimeDowntime h \<le> callTime c" by simp
  from applyCall_settle [OF Nil.prems(1,2,3) le Nil.prems(6,7)]
  show ?case by simp
next
  case (Cons c0 cs)
  from Cons.prems have le: "lastUptimeDowntime h \<le> callTime c0"
    and asc: "timesAscending (callTime c0) (cs @ [c])" by simp_all
  from timesAscending_last [OF asc] Cons.prems(7)
  have fits0: "callTime c0 - b \<le> 9223372036854775807" by simp
  from applyCall_settled [OF Cons.prems(1,2,3) le fits0]
  have up': "0 \<le> totalUpTime (applyCall c0 h)"
    and down': "0 \<le> totalDownTime (applyCall c0 h)"
    and inv': "totalUpTime (applyCall c0 h) + totalDownTime (applyCall c0 h) =
      max (lastUptimeDowntime (applyCall c0 h)) (genesisTime (applyCall c0 h)) - b"
    and le': "lastUptimeDowntime (applyCall c0 h) \<le> callTime c0"
    by (simp_all add: applyCall_genesisTime)
  have g': "genesisTime (applyCall c0 h) \<le> callTime c"
    using Cons.prems(6) by (simp add: applyCall_genesisTime)
  from Cons.IH [OF up' down' inv' le' asc g' Cons.prems(7)] show ?case
    by simp
qed

text \<open>
  Claim C1, as stated: after \<open>reevaluate(now)\<close> with \<open>now \<ge> genesisTimestamp\<close>, the sum
  \<open>totalUpTime + totalDownTime\<close> is \<open>now - genesisTimestamp\<close>, whatever came before.
  It fails for a record built after genesis: the constructor sets the settlement
  instant to the clock reading, so the time from genesis to construction is never
  counted. Built at 5 with genesis 0 and re-evaluated at 10, the record holds 5, not 10.
\<close>

theorem reevaluate_total_counterexample:
  "newHeartbeatMessageInfo 10 False 0 (Some 5) = Inr latePeer \<and>
   genesisTime latePeer \<le> 10 \<and>
   totalUpTime (computeActive 10 latePeer) + totalDownTime (computeActive 10 latePeer) = 5 \<and>
   Sub 10 (genesisTime latePeer) = 10"
  by (simp add: newHeartbeatMessageInfo_def peer_defs heartbeat_defs duration_defs)

text \<open>
  Claim C1, amended: for a record built at the clock reading \<open>t0\<close>, and a history of
  \<open>HeartbeatReceived\<close> and \<open>reevaluate\<close> calls over which the clock never runs backwards,
  after a final \<open>reevaluate(now)\<close> with \<open>now \<ge> genesisTimestamp\<close> the sum
  \<open>totalUpTime + totalDownTime\<close> is exactly the time from the later of \<open>t0\<close> and
  \<open>genesisTimestamp\<close> to \<open>now\<close>, provided that time is a \<open>Duration\<close> (at most
  \<open>2^63 - 1\<close> nanoseconds). For a record built at or before genesis this is
  \<open>now - genesisTimestamp\<close>.
\<close>

theorem reevaluate_total:
  assumes new: "newHeartbeatMessageInfo maxDur isVal genesis (Some t0) = Inr hbmi"
    and asc: "timesAscending t0 (cs @ [CallComputeActive now])"
    and after: "genesis \<le> now"
    and fits: "now - max t0 genesis \<le> 9223372036854775807"
  shows "totalUpTime (computeActive now (applyCalls cs hbmi))
           + totalDownTime (computeActive now (applyCalls cs hbmi)) = now - max t0 genesis"
proof -
  from new have h: "totalUpTime hbmi = 0" "totalDownTime hbmi = 0"
      "lastUptimeDowntime hbmi = t0" "genesisTime hbmi = genesis"
    by (auto simp: newHeartbeatMessageInfo_def split: if_splits)
  have up: "0 \<le> totalUpTime hbmi" and down: "0 \<le> totalDownTime hbmi"
    using h by simp_all
  have inv: "totalUpTime hbmi + totalDownTime hbmi =
      max (lastUptimeDowntime hbmi) (genesisTime hbmi) - max t0 genesis"
    using h by simp
  have le: "lastUptimeDowntime hbmi \<le> t0" using h by simp
  have g: "genesisTime hbmi \<le> callTime (CallComputeActive now)" using h after by simp
  have f: "callTime (CallComputeActive now) - max t0 genesis \<le> 9223372036854775807"
    using fits by simp
  from applyCalls_settled [OF up down inv le asc g f] show ?thesis
    by (simp add: applyCalls_append)
qed

theorem reevaluate_total_witness:
  "newHeartbeatMessageInfo 10 False 0 (Some 5) = Inr latePeer \<and>
   timesAscending 5 ([CallHeartbeatReceived 8 1 1 ''v1'' ''node'', CallComputeActive 20,
       CallHeartbeatReceived 30 1 1 ''v1'' ''node''] @ [CallComputeActive 35]) \<and>
   (0::int) \<le> 35 \<and> (35::int) - max 5 0 \<le> 9223372036854775807 \<and>
   totalUpTime (computeActive 35 (applyCalls [CallHeartbeatReceived 8 1 1 ''v1'' ''node'',
       CallComputeActive 20, CallHeartbeatReceived 30 1 1 ''v1'' ''node''] latePeer))
   + totalDownTime (computeActive 35 (applyCalls [CallHeartbeatReceived 8 1 1 ''v1'' ''node'',
       CallComputeActive 20, CallHeartbeatReceived 30 1 1 ''v1'' ''node''] latePeer))
   = 30"
  using reevaluate_total [of 10 False 0 5 latePeer
      "[CallHeartbeatReceived 8 1 1 ''v1'' ''node'', CallComputeActive 20,
        CallHeartbeatReceived 30 1 1 ''v1'' ''node'']" 35]
  by (simp add: newHeartbeatMessageInfo_def peer_defs)


text \<open>
  The hypothesis on the counted time is needed: the totals are \<open>int64\<close>. For the record
  built at genesis 0 and re-evaluated after 6311433600 and after 12622780800 seconds,
  the second interval takes \<open>totalDownTime\<close> past \<open>2^63 - 1\<close> nanoseconds, and the sum
  is negative.
\<close>

lemma reevaluate_total_wraps:
  "totalUpTime (computeActive 12622780800000000000
      (computeActive 6311433600000000000 examplePeer))
   + totalDownTime (computeActive 12622780800000000000
      (computeActive 6311433600000000000 examplePeer))
   = - 5823963273709551616"
  by (simp add: peer_defs heartbeat_defs duration_defs)

text \<open>
  So is the hypothesis on the clock: a call that runs before the last settlement adds
  nothing and moves the settlement instant back, and the next call counts the interval
  between them a second time. Built at genesis 0 and re-evaluated at 10, at 5 and at 10
  again, the record holds 15.
\<close>

lemma reevaluate_total_clock_backwards:
  "totalUpTime (computeActive 10 (computeActive 5 (computeActive 10 examplePeer)))
   + totalDownTime (computeActive 10 (computeActive 5 (computeActive 10 examplePeer)))
   = 15"
  by (simp add: peer_defs heartbeat_defs duration_defs)

text \<open>
  Claim C6: in any prior state, right after \<open>HeartbeatReceived\<close> the record's
  \<open>isActive\<close> field is true.
\<close>

theorem HeartbeatReceived_isActive:
  "isActive (HeartbeatReceived crtTime computedShard receivedShard version displayName hbmi)"
  by (simp add: heartbeat_defs Let_def)

theorem HeartbeatReceived_isActive_witness:
  "\<not> isActive earlyPeer \<and> isActive (HeartbeatReceived 60 1 2 ''v1'' ''node'' earlyPeer)"
  using HeartbeatReceived_isActive [of 60 1 2 "''v1''" "''node''" earlyPeer]
  by (simp add: peer_defs)

text \<open>
  Claim C7: when the time from the last recorded message to \<open>now\<close> exceeds
  \<open>maxDurationPeerUnresponsive\<close>, the record is inactive after \<open>computeActive now\<close>.
\<close>

theorem computeActive_unresponsive:
  "maxDurationPeerUnresponsive hbmi < Sub now (timeStamp hbmi) \<Longrightarrow>
   \<not> isActive (computeActive now hbmi)"
  by (simp add: heartbeat_defs Let_def)

theorem computeActive_unresponsive_witness:
  "isActive (HeartbeatReceived 5 1 1 ''v1'' ''node'' examplePeer) \<and>
   maxDurationPeerUnresponsive (HeartbeatReceived 5 1 1 ''v1'' ''node'' examplePeer)
     < Sub 25 (timeStamp (HeartbeatReceived 5 1 1 ''v1'' ''node'' examplePeer)) \<and>
   \<not> isActive (computeActive 25 (HeartbeatReceived 5 1 1 ''v1'' ''node'' examplePeer))"
  using computeActive_unresponsive [of "HeartbeatReceived 5 1 1 ''v1'' ''node'' examplePeer" 25]
  by (simp add: peer_defs heartbeat_defs duration_defs)

text \<open>
  Claim C8: \<open>maxInactiveTime\<close> never decreases: not over one call of
  \<open>HeartbeatReceived\<close> or \<open>computeActive\<close>, and so not over any history of calls.
\<close>

theorem maxInactiveTime_monotone:
  "maxInactiveTime hbmi
     \<le> maxInactiveTime (HeartbeatReceived crtTime computedShard receivedShard version
                           displayName hbmi) \<and>
   maxInactiveTime hbmi \<le> maxInactiveTime (computeActive crtTime hbmi) \<and>
   maxInactiveTime hbmi \<le> maxInactiveTime (applyCalls cs hbmi)"
  using applyCall_maxInactiveTime [of hbmi
      "CallHeartbeatReceived crtTime computedShard receivedShard version displayName"]
    applyCall_maxInactiveTime [of hbmi "CallComputeActive crtTime"]
    applyCalls_maxInactiveTime [of hbmi cs]
  by simp

theorem maxInactiveTime_monotone_witness:
  "maxInactiveTime examplePeer = 0 \<and>
   maxInactiveTime (HeartbeatReceived 7 1 1 ''v1'' ''node'' examplePeer) = 7 \<and>
   maxInactiveTime (computeActive 7 examplePeer) = 7 \<and>
   maxInactiveTime (applyCalls [CallHeartbeatReceived 7 1 1 ''v1'' ''node'',
      CallComputeActive 30, CallComputeActive 12] examplePeer) = 23"
  using maxInactiveTime_monotone [of examplePeer 7 1 1 "''v1''" "''node''"
      "[CallHeartbeatReceived 7 1 1 ''v1'' ''node'', CallComputeActive 30,
        CallComputeActive 12]"]
  by (simp add: peer_defs heartbeat_defs duration_defs)

text \<open>
  The settlement instant is clamped to genesis when a call settles, not before: a call
  at or after genesis moves it to the call's time, and once at or after genesis it
  stays there.
\<close>

lemma applyCall_lastUptimeDowntime:
  "genesisTime h \<le> lastUptimeDowntime h \<or> genesisTime h \<le> callTime c \<Longrightarrow>
   genesisTime h \<le> lastUptimeDowntime (applyCall c h)"
  by (cases c) (auto simp add: heartbeat_defs Let_def Sub_negative)

lemma applyCalls_lastUptimeDowntime:
  "genesisTime h \<le> lastUptimeDowntime h \<or> anyCallFrom (genesisTime h) cs \<Longrightarrow>
   genesisTime h \<le> lastUptimeDowntime (applyCalls cs h)"
proof (induction cs arbitrary: h)
  case Nil
  then show ?case by simp
next
  case (Cons c cs)
  show ?case
  proof (cases "genesisTime h \<le> lastUptimeDowntime h \<or> genesisTime h \<le> callTime c")
    case True
    then have "genesisTime (applyCall c h) \<le> lastUptimeDowntime (applyCall c h)"
      by (simp add: applyCall_lastUptimeDowntime applyCall_genesisTime)
    then have "genesisTime (applyCall c h) \<le> lastUptimeDowntime (applyCalls cs (applyCall c h))"
      by (intro Cons.IH) simp
    then show ?thesis by (simp add: applyCall_genesisTime)
  next
    case False
    with Cons.prems have "anyCallFrom (genesisTime (applyCall c h)) cs"
      by (simp add: applyCall_genesisTime)
    then have "genesisTime (applyCall c h) \<le> lastUptimeDowntime (applyCalls cs (applyCall c h))"
      by (intro Cons.IH) simp
    then show ?thesis by (simp add: applyCall_genesisTime)
  qed
qed

text \<open>
  Claim C9, as stated: in every reachable state, the state right after construction
  included, \<open>lastUptimeDowntime\<close> is at or after \<open>genesisTime\<close>. The constructor stores
  the clock reading unclamped, and a call before genesis settles nothing: a record built
  at 50 with genesis 100 holds 50, and still does after a message received at 60.
\<close>

theorem lastUptimeDowntime_counterexample:
  "newHeartbeatMessageInfo 10 False 100 (Some 50) = Inr earlyPeer \<and>
   genesisTime earlyPeer = 100 \<and> lastUptimeDowntime earlyPeer = 50 \<and>
   genesisTime (HeartbeatReceived 60 1 1 ''v1'' ''node'' earlyPeer) = 100 \<and>
   lastUptimeDowntime (HeartbeatReceived 60 1 1 ''v1'' ''node'' earlyPeer) = 50"
  by (simp add: newHeartbeatMessageInfo_def peer_defs heartbeat_defs duration_defs)

text \<open>
  Claim C9, amended: \<open>lastUptimeDowntime\<close> is at or after \<open>genesisTime\<close> in every state
  reached through a history of \<open>HeartbeatReceived\<close> and \<open>computeActive\<close> calls that
  starts from a state where it already is (a record built at or after genesis), or that
  holds at least one call at or after genesis.
\<close>

theorem lastUptimeDowntime_after_genesis:
  assumes "genesisTime hbmi \<le> lastUptimeDowntime hbmi \<or> anyCallFrom (genesisTime hbmi) cs"
  shows "genesisTime (applyCalls cs hbmi) \<le> lastUptimeDowntime (applyCalls cs hbmi)"
  using applyCalls_lastUptimeDowntime [OF assms] by (simp add: applyCalls_genesisTime)

theorem lastUptimeDowntime_after_genesis_witness:
  "anyCallFrom (genesisTime earlyPeer)
     [CallHeartbeatReceived 60 1 1 ''v1'' ''node'', CallComputeActive 120,
      CallHeartbeatReceived 90 1 1 ''v1'' ''node''] \<and>
   genesisTime (applyCalls [CallHeartbeatReceived 60 1 1 ''v1'' ''node'', CallComputeActive 120,
      CallHeartbeatReceived 90 1 1 ''v1'' ''node''] earlyPeer)
     \<le> lastUptimeDowntime (applyCalls [CallHeartbeatReceived 60 1 1 ''v1'' ''node'',
      CallComputeActive 120, CallHeartbeatReceived 90 1 1 ''v1'' ''node''] earlyPeer)"
  using lastUptimeDowntime_after_genesis [of earlyPeer
      "[CallHeartbeatReceived 60 1 1 ''v1'' ''node'', CallComputeActive 120,
        CallHeartbeatReceived 90 1 1 ''v1'' ''node'']"]
  by (simp add: peer_defs)

section \<open>Properties of the ESDT contract\<close>

lemmas example_defs = exampleToken_def exampleIssued_def exampleTokens_def exampleConfig_def
  exampleConfigs_def exampleMarshalizer_def exampleContract_def emptyEei_def exampleEei_def
  configuredEei_def issueABC123_def callOnToken_def

lemmas eei_defs = AddReturnMessage_def GetStorage_def SetStorage_def UseGas_def Transfer_def
  SendGlobalSettingToAll_def

lemmas const_defs = minLengthForTokenName_def maxLengthForTokenName_def configKeyPrefix_def
  allIssuedTokens_def

text \<open>
  Claim C2, as stated: \<open>issue\<close> of the token \<open>ABC123\<close> with supply 1000, no optional
  flags and the configured base issuing cost attached returns \<open>Ok\<close> and stores the
  token. Under the configuration that \<open>init\<close> stores (name lengths from 10 to 20) the
  6-byte name is turned away with \<open>FunctionWrongSignature\<close>, and nothing is stored
  under it.
\<close>

theorem issue_ABC123_counterexample:
  "SetBytes (Arguments issueABC123 ! 1) = 1000 \<and>
   fst (init exampleContract emptyEei) = Ok \<and>
   getESDTConfig exampleContract (snd (init exampleContract emptyEei))
     = Inr \<lparr> OwnerAddress_cfg = ''admin'', BaseIssuingCost = 5,
             MinTokenNameLength = 10, MaxTokenNameLength = 20 \<rparr> \<and>
   CallValue issueABC123 = 5 \<and>
   fst (issue exampleContract issueABC123 (snd (init exampleContract emptyEei)))
     = FunctionWrongSignature \<and>
   storage (snd (issue exampleContract issueABC123 (snd (init exampleContract emptyEei))))
     ''ABC123'' = None"
  by (simp add: issue_def init_def saveESDTConfig_def getESDTConfig_def example_defs eei_defs
      const_defs SetBytes_def)


text \<open>
  \<open>issueToken\<close> with a token name and a supply and no optional flags: a positive
  supply, a name that is free, readable and not the key of the directory of issued
  tokens, a marshalizer and a transfer that succeed. The token is stored under its name
  as the marshalizer writes it. (Under the name \<open>allIssuedTokens\<close> the directory,
  written last, would replace it.)
\<close>

lemma issueToken_ok:
  assumes pos: "0 < SetBytes supply"
    and fresh: "GetStorage tokenName eei = []"
    and readable: "isTokenNameHumanReadable tokenName"
    and notdir: "tokenName \<noteq> allIssuedTokens"
    and marshal: "MarshalData (marshalizer e)
        \<lparr> OwnerAddress = owner, TokenName = tokenName,
          MintedValue = SetBytes supply, BurntValue = 0,
          Burnable = False, Mintable = False, CanPause = False, CanFreeze = False,
          CanWipe = False, Upgradable = True, CanChangeOwner = False, IsPaused = False \<rparr>
        = Inr d"
    and transfer: "transferError eei
        \<lparr> trDestination = owner, trSender = eSDTSCAddress e, trValue = 0,
          trInput = Payload BuiltInFunctionESDTTransfer tokenName (Some (SetBytes supply)),
          trGasLimit = 0 \<rparr> = None"
  shows "fst (issueToken e owner [tokenName, supply] eei) = None \<and>
         storage (snd (issueToken e owner [tokenName, supply] eei)) tokenName = Some d"
proof -
  let ?tok = "\<lparr> OwnerAddress = owner, TokenName = tokenName,
          MintedValue = SetBytes supply, BurntValue = 0,
          Burnable = False, Mintable = False, CanPause = False, CanFreeze = False,
          CanWipe = False, Upgradable = True, CanChangeOwner = False, IsPaused = False \<rparr>"
  let ?eei1 = "SetStorage tokenName d eei"
  let ?t = "\<lparr> trDestination = owner, trSender = eSDTSCAddress e, trValue = 0,
          trInput = Payload BuiltInFunctionESDTTransfer tokenName (Some (SetBytes supply)),
          trGasLimit = 0 \<rparr>"
  let ?eei2 = "?eei1\<lparr>transfers := transfers ?eei1 @ [?t]\<rparr>"
  have up: "upgradeProperties ?tok [] = Inr ?tok"
    by (simp add: upgradeProperties_def)
  have sv: "saveToken e ?tok eei = Inr ?eei1"
    using marshal by (simp add: saveToken_def)
  have te: "transferError ?eei1 = transferError eei"
    by (simp add: SetStorage_def)
  have tr: "Transfer owner (eSDTSCAddress e) 0
      (Payload BuiltInFunctionESDTTransfer tokenName (Some (SetBytes supply))) 0 ?eei1
      = Inr ?eei2"
    using transfer by (simp add: Transfer_def te)
  have it: "issueToken e owner [tokenName, supply] eei
      = (None, addToIssuedTokens tokenName ?eei2)"
    unfolding issueToken_def using pos fresh readable
    by (simp add: Let_def up sv tr)
  have st: "storage (addToIssuedTokens tokenName ?eei2) tokenName = Some d"
    using notdir by (simp add: addToIssuedTokens_def SetStorage_def GetStorage_def Let_def)
  show ?thesis by (simp add: it st)
qed

text \<open>
  Claim C2, amended: \<open>issue\<close> of a token whose name has a length within the configured
  bounds (\<open>ABC123\<close> under a configuration that admits 6 bytes), is made of ASCII letters
  and digits, is not registered yet and is not the directory key, with supply 1000, no
  optional flags, the configured base issuing cost attached, gas for the issue, and a
  marshalizer and a transfer that succeed, returns \<open>Ok\<close> and stores under the name the
  token with the caller as owner, minted value 1000, burnt value 0 and the flags
  burnable, mintable, pausable, freezable, wipeable and owner-transferable off and
  upgradable on.
\<close>

theorem issue_persists_token:
  assumes args: "Arguments args = [tokenName, supply]"
    and gas: "\<not> gasRemaining eei < ESDTIssue (gasCost e)"
    and cfg: "getESDTConfig e eei = Inr cfg"
    and lenmin: "uint (MinTokenNameLength cfg) \<le> int (length tokenName)"
    and lenmax: "int (length tokenName) \<le> uint (MaxTokenNameLength cfg)"
    and val: "CallValue args = BaseIssuingCost cfg"
    and sup: "SetBytes supply = 1000"
    and fresh: "GetStorage tokenName eei = []"
    and readable: "isTokenNameHumanReadable tokenName"
    and notdir: "tokenName \<noteq> allIssuedTokens"
    and marshal: "MarshalData (marshalizer e)
        \<lparr> OwnerAddress = CallerAddr args, TokenName = tokenName,
          MintedValue = 1000, BurntValue = 0,
          Burnable = False, Mintable = False, CanPause = False, CanFreeze = False,
          CanWipe = False, Upgradable = True, CanChangeOwner = False, IsPaused = False \<rparr>
        = Inr d"
    and transfer: "transferError eei
        \<lparr> trDestination = CallerAddr args, trSender = eSDTSCAddress e, trValue = 0,
          trInput = Payload BuiltInFunctionESDTTransfer tokenName (Some 1000),
          trGasLimit = 0 \<rparr> = None"
  shows "fst (issue e args eei) = Ok \<and>
         storage (snd (issue e args eei)) tokenName = Some d"
proof -
  let ?eei1 = "eei\<lparr>gasRemaining := gasRemaining eei - ESDTIssue (gasCost e)\<rparr>"
  have g: "UseGas (ESDTIssue (gasCost e)) eei = Inr ?eei1"
    using gas by (simp add: UseGas_def)
  have c: "getESDTConfig e ?eei1 = Inr cfg"
    using cfg by (simp add: getESDTConfig_def GetStorage_def)
  have f1: "GetStorage tokenName ?eei1 = []"
    using fresh by (simp add: GetStorage_def)
  have t: "fst (issueToken e (CallerAddr args) [tokenName, supply] ?eei1) = None \<and>
         storage (snd (issueToken e (CallerAddr args) [tokenName, supply] ?eei1)) tokenName
           = Some d"
    using sup f1 readable notdir marshal transfer
    by (intro issueToken_ok) simp_all
  obtain r s where rs: "issueToken e (CallerAddr args) [tokenName, supply] ?eei1 = (r, s)"
    by (cases "issueToken e (CallerAddr args) [tokenName, supply] ?eei1")
  from t rs have r: "r = None" and s: "storage s tokenName = Some d" by simp_all
  have "issue e args eei = (Ok, s)"
    unfolding issue_def using lenmin lenmax val
    by (simp add: args g c rs r)
  then show ?thesis by (simp add: s)
qed

theorem issue_persists_token_witness:
  "Arguments issueABC123 = [''ABC123'', [CHR 0x03, CHR 0xE8]] \<and>
   SetBytes [CHR 0x03, CHR 0xE8] = 1000 \<and>
   getESDTConfig exampleContract configuredEei = Inr exampleConfig \<and>
   CallValue issueABC123 = BaseIssuingCost exampleConfig \<and>
   MarshalData (marshalizer exampleContract) exampleIssued = Inr ''issued'' \<and>
   fst (issue exampleContract issueABC123 configuredEei) = Ok \<and>
   storage (snd (issue exampleContract issueABC123 configuredEei)) ''ABC123'' = Some ''issued''"
proof -
  have a: "Arguments issueABC123 = [''ABC123'', [CHR 0x03, CHR 0xE8]]"
    by (simp add: issueABC123_def)
  have g: "\<not> gasRemaining configuredEei < ESDTIssue (gasCost exampleContract)"
    by (simp add: example_defs)
  have c: "getESDTConfig exampleContract configuredEei = Inr exampleConfig"
    by (simp add: getESDTConfig_def example_defs eei_defs const_defs)
  have l1: "uint (MinTokenNameLength exampleConfig) \<le> int (length ''ABC123'')"
    by (simp add: exampleConfig_def)
  have l2: "int (length ''ABC123'') \<le> uint (MaxTokenNameLength exampleConfig)"
    by (simp add: exampleConfig_def)
  have v: "CallValue issueABC123 = BaseIssuingCost exampleConfig"
    by (simp add: example_defs)
  have s: "SetBytes [CHR 0x03, CHR 0xE8] = 1000"
    by (simp add: SetBytes_def)
  have f: "GetStorage ''ABC123'' configuredEei = []"
    by (simp add: example_defs eei_defs)
  have r: "isTokenNameHumanReadable ''ABC123''"
    by (simp add: less_eq_char_def)
  have n: "''ABC123'' \<noteq> allIssuedTokens"
    by (simp add: allIssuedTokens_def)
  have m: "MarshalData (marshalizer exampleContract)
        \<lparr> OwnerAddress = CallerAddr issueABC123, TokenName = ''ABC123'',
          MintedValue = 1000, BurntValue = 0,
          Burnable = False, Mintable = False, CanPause = False, CanFreeze = False,
          CanWipe = False, Upgradable = True, CanChangeOwner = False, IsPaused = False \<rparr>
        = Inr ''issued''"
    by (simp add: example_defs)
  have m': "MarshalData (marshalizer exampleContract) exampleIssued = Inr ''issued''"
    by (simp add: example_defs)
  have t: "transferError configuredEei
        \<lparr> trDestination = CallerAddr issueABC123, trSender = eSDTSCAddress exampleContract,
          trValue = 0,
          trInput = Payload BuiltInFunctionESDTTransfer ''ABC123'' (Some 1000),
          trGasLimit = 0 \<rparr> = None"
    by (simp add: example_defs)
  from issue_persists_token [OF a g c l1 l2 v s f r n m t] a s c v m'
  show ?thesis by simp
qed

text \<open>
  Claim C5: \<open>burn\<close> saves the token with the increased \<open>BurntValue\<close> before it deducts
  gas: a call that passes every validation and then fails the deduction returns
  \<open>OutOfGas\<close>, and the storage holds the saved token (with no gas deducted).
\<close>

theorem burn_OutOfGas_keeps_saved_token:
  assumes args: "Arguments args = [tokenName, amount]"
    and val: "CallValue args = 0"
    and pos: "0 < SetBytes amount"
    and tok: "getExistingToken e tokenName eei = Inr token"
    and burnable: "Burnable token"
    and marshal: "MarshalData (marshalizer e)
        (token\<lparr>BurntValue := BurntValue token + SetBytes amount\<rparr>) = Inr d"
    and gas: "gasRemaining eei < GasProvided args"
  shows "fst (burn e args eei) = OutOfGas \<and>
         storage (snd (burn e args eei)) (TokenName token) = Some d \<and>
         gasRemaining (snd (burn e args eei)) = gasRemaining eei"
proof -
  let ?tok = "token\<lparr>BurntValue := BurntValue token + SetBytes amount\<rparr>"
  let ?eei1 = "SetStorage (TokenName token) d eei"
  have sv: "saveToken e ?tok eei = Inr ?eei1"
    using marshal by (simp add: saveToken_def)
  have ug: "UseGas (GasProvided args) ?eei1 = Inl ErrNotEnoughGas"
    using gas by (simp add: UseGas_def SetStorage_def)
  have "burn e args eei = (OutOfGas, AddReturnMessage (ErrMsg ErrNotEnoughGas) ?eei1)"
    unfolding burn_def using val pos burnable
    by (simp add: args tok Let_def sv ug)
  then show ?thesis by (simp add: AddReturnMessage_def SetStorage_def)
qed

theorem burn_OutOfGas_keeps_saved_token_witness:
  "getExistingToken exampleContract ''ABCDEF1234'' exampleEei = Inr exampleToken \<and>
   BurntValue exampleToken = 0 \<and>
   SetBytes [CHR 0x07] = 7 \<and>
   MarshalData (marshalizer exampleContract) (exampleToken\<lparr>BurntValue := 7\<rparr>)
     = Inr ''token0-burnt-7'' \<and>
   gasRemaining exampleEei < GasProvided (callOnToken ''anyone'' [[CHR 0x07]] 500) \<and>
   storage exampleEei ''ABCDEF1234'' = Some ''token0'' \<and>
   fst (burn exampleContract (callOnToken ''anyone'' [[CHR 0x07]] 500) exampleEei) = OutOfGas \<and>
   storage (snd (burn exampleContract (callOnToken ''anyone'' [[CHR 0x07]] 500) exampleEei))
     ''ABCDEF1234'' = Some ''token0-burnt-7''"
proof -
  have a: "Arguments (callOnToken ''anyone'' [[CHR 0x07]] 500) = [''ABCDEF1234'', [CHR 0x07]]"
    by (simp add: callOnToken_def)
  have v: "CallValue (callOnToken ''anyone'' [[CHR 0x07]] 500) = 0"
    by (simp add: callOnToken_def)
  have s: "SetBytes [CHR 0x07] = 7"
    by (simp add: SetBytes_def)
  have t: "getExistingToken exampleContract ''ABCDEF1234'' exampleEei = Inr exampleToken"
    by (simp add: getExistingToken_def example_defs eei_defs)
  have b: "Burnable exampleToken" "BurntValue exampleToken = 0"
      "TokenName exampleToken = ''ABCDEF1234''"
    by (simp_all add: exampleToken_def)
  have m: "MarshalData (marshalizer exampleContract)
      (exampleToken\<lparr>BurntValue := BurntValue exampleToken + SetBytes [CHR 0x07]\<rparr>)
      = Inr ''token0-burnt-7''"
    by (simp add: example_defs SetBytes_def)
  have g: "gasRemaining exampleEei < GasProvided (callOnToken ''anyone'' [[CHR 0x07]] 500)"
    by (simp add: example_defs)
  have st: "storage exampleEei ''ABCDEF1234'' = Some ''token0''"
    by (simp add: example_defs)
  from burn_OutOfGas_keeps_saved_token [OF a v _ t b(1) m g] s t b m g st
  show ?thesis by simp
qed

text \<open>
  Claim C10: when nothing is stored under the configuration key, \<open>getESDTConfig\<close>
  returns the built-in configuration (the owner address and base issuing cost the
  contract was constructed with, name lengths from 10 to 20) and no error, and \<open>issue\<close>
  runs its checks against these values.
\<close>

theorem getESDTConfig_default:
  assumes "storage eei configKeyPrefix = None"
  shows "getESDTConfig e eei = Inr \<lparr> OwnerAddress_cfg = ownerAddress e,
           BaseIssuingCost = baseIssuingCost e,
           MinTokenNameLength = 10, MaxTokenNameLength = 20 \<rparr> \<and>
         issue e args eei =
           (if length (Arguments args) < 2
              then (FunctionWrongSignature, AddReturnMessage (Msg ''not enough arguments'') eei)
            else case UseGas (ESDTIssue (gasCost e)) eei of
              Inl err \<Rightarrow> (OutOfGas, AddReturnMessage (Msg ''not enough gas'') eei)
            | Inr eei1 \<Rightarrow>
               if length (Arguments args ! 0) < 10 \<or> length (Arguments args ! 0) > 20
                 then (FunctionWrongSignature,
                       AddReturnMessage (Msg ''token name length not in parameters'') eei1)
               else if CallValue args \<noteq> baseIssuingCost e
                 then (OutOfFunds,
                       AddReturnMessage (Msg ''callValue not equals with baseIssuingCost'') eei1)
               else (case issueToken e (CallerAddr args) (Arguments args) eei1 of
                       (Some err, eei2) \<Rightarrow> (UserError, AddReturnMessage (ErrMsg err) eei2)
                     | (None, eei2) \<Rightarrow> (Ok, eei2)))"
proof -
  have c: "getESDTConfig e eei' = Inr \<lparr> OwnerAddress_cfg = ownerAddress e,
           BaseIssuingCost = baseIssuingCost e,
           MinTokenNameLength = 10, MaxTokenNameLength = 20 \<rparr>"
    if "storage eei' = storage eei" for eei'
    using assms that by (simp add: getESDTConfig_def GetStorage_def const_defs)
  have i: "issue e args eei = (if length (Arguments args) < 2
              then (FunctionWrongSignature, AddReturnMessage (Msg ''not enough arguments'') eei)
            else case UseGas (ESDTIssue (gasCost e)) eei of
              Inl err \<Rightarrow> (OutOfGas, AddReturnMessage (Msg ''not enough gas'') eei)
            | Inr eei1 \<Rightarrow>
               if length (Arguments args ! 0) < 10 \<or> length (Arguments args ! 0) > 20
                 then (FunctionWrongSignature,
                       AddReturnMessage (Msg ''token name length not in parameters'') eei1)
               else if CallValue args \<noteq> baseIssuingCost e
                 then (OutOfFunds,
                       AddReturnMessage (Msg ''callValue not equals with baseIssuingCost'') eei1)
               else (case issueToken e (CallerAddr args) (Arguments args) eei1 of
                       (Some err, eei2) \<Rightarrow> (UserError, AddReturnMessage (ErrMsg err) eei2)
                     | (None, eei2) \<Rightarrow> (Ok, eei2)))"
  proof (cases "gasRemaining eei < ESDTIssue (gasCost e)")
    case True
    then show ?thesis by (simp add: issue_def UseGas_def)
  next
    case False
    then show ?thesis by (simp add: issue_def UseGas_def c)
  qed
  from c [of eei] i show ?thesis by simp
qed

theorem getESDTConfig_default_witness:
  "storage emptyEei configKeyPrefix = None \<and>
   getESDTConfig exampleContract emptyEei
     = Inr \<lparr> OwnerAddress_cfg = ''admin'', BaseIssuingCost = 5,
             MinTokenNameLength = 10, MaxTokenNameLength = 20 \<rparr> \<and>
   fst (issue exampleContract issueABC123 emptyEei) = FunctionWrongSignature"
proof -
  have a: "storage emptyEei configKeyPrefix = None"
    by (simp add: emptyEei_def)
  from getESDTConfig_default [OF a, of exampleContract issueABC123] a
  show ?thesis by (simp add: example_defs UseGas_def AddReturnMessage_def)
qed

text \<open>
  The ownership check shared by \<open>mint\<close>, \<open>toggleFreeze\<close>, \<open>wipe\<close>, \<open>togglePause\<close>,
  \<open>transferOwnership\<close> and \<open>esdtControlChanges\<close>: with no value attached and gas for one
  operation, a caller other than the owner of the token is turned away.
\<close>

lemma basicOwnershipChecks_not_owner:
  assumes val: "CallValue args = 0"
    and gas: "\<not> gasRemaining eei < ESDTOperations (gasCost e)"
    and tok: "getExistingToken e (Arguments args ! 0) eei = Inr token"
    and other: "OwnerAddress token \<noteq> CallerAddr args"
  shows "basicOwnershipChecks e args eei =
           (Inl UserError,
            AddReturnMessage (Msg ''can be called by owner only'')
              (eei\<lparr>gasRemaining := gasRemaining eei - ESDTOperations (gasCost e)\<rparr>))"
proof -
  let ?eei1 = "eei\<lparr>gasRemaining := gasRemaining eei - ESDTOperations (gasCost e)\<rparr>"
  have g: "UseGas (ESDTOperations (gasCost e)) eei = Inr ?eei1"
    using gas by (simp add: UseGas_def)
  have t: "getExistingToken e (Arguments args ! 0) ?eei1 = Inr token"
    using tok by (simp add: getExistingToken_def GetStorage_def)
  show ?thesis
    unfolding basicOwnershipChecks_def using val other by (simp add: g t)
qed

text \<open>
  Claim C3, as stated: \<open>togglePause\<close> on a token with \<open>CanPause\<close> does not compare the
  caller with the owner of the token. It does: on the pausable \<open>exampleToken\<close>, the
  owner's \<open>pause\<close> returns \<open>Ok\<close>, and the same call by another address returns
  \<open>UserError\<close> with the message of the ownership check, for \<open>pause\<close> and \<open>unPause\<close>.
\<close>

theorem togglePause_counterexample:
  "getExistingToken exampleContract ''ABCDEF1234'' exampleEei = Inr exampleToken \<and>
   CanPause exampleToken \<and> OwnerAddress exampleToken = ''owner'' \<and>
   fst (togglePause exampleContract (callOnToken ''owner'' [] 0) BuiltInFunctionESDTPause
          exampleEei) = Ok \<and>
   fst (togglePause exampleContract (callOnToken ''mallory'' [] 0) BuiltInFunctionESDTPause
          exampleEei) = UserError \<and>
   returnMessages (snd (togglePause exampleContract (callOnToken ''mallory'' [] 0)
          BuiltInFunctionESDTPause exampleEei)) = [Msg ''can be called by owner only''] \<and>
   fst (togglePause exampleContract (callOnToken ''mallory'' [] 0) BuiltInFunctionESDTUnPause
          exampleEei) = UserError \<and>
   returnMessages (snd (togglePause exampleContract (callOnToken ''mallory'' [] 0)
          BuiltInFunctionESDTUnPause exampleEei)) = [Msg ''can be called by owner only'']"
  by (simp add: togglePause_def basicOwnershipChecks_def getExistingToken_def saveToken_def
      example_defs eei_defs)

text \<open>
  Claim C3, amended: \<open>pause\<close> and \<open>unPause\<close> compare the caller with the owner of the
  token, through the same \<open>basicOwnershipChecks\<close> as \<open>mint\<close>, \<open>freeze\<close>, \<open>unFreeze\<close>,
  \<open>wipe\<close>, \<open>transferOwnership\<close> and \<open>esdtControlChanges\<close>, and before the capability
  is looked at: on an existing token, with no value attached and gas for the operation,
  a call of any of them, with any number of arguments the operation accepts (one for
  \<open>pause\<close> and \<open>unPause\<close>, two or three for \<open>mint\<close>, two or more for
  \<open>esdtControlChanges\<close>, two for the others), by an address other than the owner
  returns \<open>UserError\<close>, with the gas deducted, the message added and the storage
  untouched.
\<close>

theorem owner_check_on_every_operation:
  assumes val: "CallValue args = 0"
    and gas: "\<not> gasRemaining eei < ESDTOperations (gasCost e)"
    and tok: "getExistingToken e (Arguments args ! 0) eei = Inr token"
    and other: "OwnerAddress token \<noteq> CallerAddr args"
  shows "let rejected = (UserError,
            AddReturnMessage (Msg ''can be called by owner only'')
              (eei\<lparr>gasRemaining := gasRemaining eei - ESDTOperations (gasCost e)\<rparr>))
         in (length (Arguments args) = 1 \<longrightarrow>
               togglePause e args builtInFunc eei = rejected) \<and>
            (length (Arguments args) = 2 \<or> length (Arguments args) = 3 \<longrightarrow>
               mint e args eei = rejected) \<and>
            (length (Arguments args) = 2 \<longrightarrow>
               toggleFreeze e args builtInFunc eei = rejected \<and>
               wipe e args eei = rejected \<and>
               transferOwnership e args eei = rejected) \<and>
            (2 \<le> length (Arguments args) \<longrightarrow>
               esdtControlChanges e args eei = rejected)"
proof -
  note b = basicOwnershipChecks_not_owner [OF val gas tok other]
  have p: "togglePause e args builtInFunc eei = (UserError,
            AddReturnMessage (Msg ''can be called by owner only'')
              (eei\<lparr>gasRemaining := gasRemaining eei - ESDTOperations (gasCost e)\<rparr>))"
    if "length (Arguments args) = 1"
    using that by (simp add: togglePause_def b)
  have m: "mint e args eei = (UserError,
            AddReturnMessage (Msg ''can be called by owner only'')
              (eei\<lparr>gasRemaining := gasRemaining eei - ESDTOperations (gasCost e)\<rparr>))"
    if "length (Arguments args) = 2 \<or> length (Arguments args) = 3"
    using that by (auto simp add: mint_def b)
  have f: "toggleFreeze e args builtInFunc eei = (UserError,
            AddReturnMessage (Msg ''can be called by owner only'')
              (eei\<lparr>gasRemaining := gasRemaining eei - ESDTOperations (gasCost e)\<rparr>))"
    if "length (Arguments args) = 2"
    using that by (simp add: toggleFreeze_def b)
  have w: "wipe e args eei = (UserError,
            AddReturnMessage (Msg ''can be called by owner only'')
              (eei\<lparr>gasRemaining := gasRemaining eei - ESDTOperations (gasCost e)\<rparr>))"
    if "length (Arguments args) = 2"
    using that by (simp add: wipe_def b)
  have t: "transferOwnership e args eei = (UserError,
            AddReturnMessage (Msg ''can be called by owner only'')
              (eei\<lparr>gasRemaining := gasRemaining eei - ESDTOperations (gasCost e)\<rparr>))"
    if "length (Arguments args) = 2"
    using that by (simp add: transferOwnership_def b)
  have c: "esdtControlChanges e args eei = (UserError,
            AddReturnMessage (Msg ''can be called by owner only'')
              (eei\<lparr>gasRemaining := gasRemaining eei - ESDTOperations (gasCost e)\<rparr>))"
    if "2 \<le> length (Arguments args)"
    using that by (simp add: esdtControlChanges_def b)
  from p m f w t c show ?thesis by (simp add: Let_def)
qed

theorem owner_check_on_every_operation_witness:
  "getExistingToken exampleContract ''ABCDEF1234'' exampleEei = Inr exampleToken \<and>
   OwnerAddress exampleToken \<noteq> ''mallory'' \<and> CanPause exampleToken \<and>
   length (Arguments (callOnToken ''mallory'' [] 0)) = 1 \<and>
   fst (togglePause exampleContract (callOnToken ''mallory'' [] 0) BuiltInFunctionESDTPause
          exampleEei) = UserError \<and>
   fst (togglePause exampleContract (callOnToken ''mallory'' [] 0) BuiltInFunctionESDTUnPause
          exampleEei) = UserError \<and>
   storage (snd (togglePause exampleContract (callOnToken ''mallory'' [] 0)
          BuiltInFunctionESDTPause exampleEei)) ''ABCDEF1234'' = Some ''token0'' \<and>
   length (Arguments (callOnToken ''mallory'' [[CHR 0x05]] 0)) = 2 \<and>
   fst (mint exampleContract (callOnToken ''mallory'' [[CHR 0x05]] 0) exampleEei)
     = UserError \<and>
   fst (toggleFreeze exampleContract (callOnToken ''mallory'' [[CHR 0x05]] 0)
          BuiltInFunctionESDTFreeze exampleEei) = UserError \<and>
   fst (wipe exampleContract (callOnToken ''mallory'' [[CHR 0x05]] 0) exampleEei)
     = UserError \<and>
   fst (transferOwnership exampleContract (callOnToken ''mallory'' [[CHR 0x05]] 0)
          exampleEei) = UserError \<and>
   length (Arguments (callOnToken ''mallory'' [[CHR 0x05], ''mallory''] 0)) = 3 \<and>
   fst (mint exampleContract (callOnToken ''mallory'' [[CHR 0x05], ''mallory''] 0)
          exampleEei) = UserError \<and>
   storage (snd (mint exampleContract (callOnToken ''mallory'' [[CHR 0x05], ''mallory''] 0)
          exampleEei)) ''ABCDEF1234'' = Some ''token0'' \<and>
   length (Arguments (callOnToken ''mallory'' [''canMint'', ''true'', ''canBurn'', ''false''] 0))
     = 5 \<and>
   fst (esdtControlChanges exampleContract
          (callOnToken ''mallory'' [''canMint'', ''true'', ''canBurn'', ''false''] 0)
          exampleEei) = UserError"
proof -
  have v: "CallValue (callOnToken ''mallory'' rest 0) = 0" for rest
    by (simp add: callOnToken_def)
  have g: "\<not> gasRemaining exampleEei < ESDTOperations (gasCost exampleContract)"
    by (simp add: example_defs)
  have t: "getExistingToken exampleContract (Arguments (callOnToken ''mallory'' rest 0) ! 0)
             exampleEei = Inr exampleToken" for rest
    by (simp add: getExistingToken_def example_defs eei_defs)
  have t': "getExistingToken exampleContract ''ABCDEF1234'' exampleEei = Inr exampleToken"
    by (simp add: getExistingToken_def example_defs eei_defs)
  have o: "OwnerAddress exampleToken \<noteq> CallerAddr (callOnToken ''mallory'' rest 0)" for rest
    by (simp add: example_defs)
  have s: "storage exampleEei ''ABCDEF1234'' = Some ''token0''"
    by (simp add: example_defs)
  have c: "OwnerAddress exampleToken \<noteq> ''mallory''" "CanPause exampleToken"
    by (simp_all add: exampleToken_def)
  have l: "length (Arguments (callOnToken ''mallory'' rest 0)) = Suc (length rest)" for rest
    by (simp add: callOnToken_def)
  from owner_check_on_every_operation [OF v g t o, of "[]" BuiltInFunctionESDTPause]
    owner_check_on_every_operation [OF v g t o, of "[]" BuiltInFunctionESDTUnPause]
    owner_check_on_every_operation [OF v g t o, of "[[CHR 0x05]]" BuiltInFunctionESDTFreeze]
    owner_check_on_every_operation [OF v g t o, of "[[CHR 0x05], ''mallory'']"
      BuiltInFunctionESDTFreeze]
    owner_check_on_every_operation [OF v g t o,
      of "[''canMint'', ''true'', ''canBurn'', ''false'']" BuiltInFunctionESDTFreeze]
    t' s c
  show ?thesis by (simp add: Let_def AddReturnMessage_def l)
qed

text \<open>
  After the ownership and mintability checks, \<open>mint\<close> saves the token with the increased
  \<open>MintedValue\<close>, and only then looks at the length of the destination address in its
  third argument.
\<close>

lemma mint_destination_checked_after_save:
  assumes args: "Arguments args = [tokenName, amount, destination]"
    and val: "CallValue args = 0"
    and gas: "\<not> gasRemaining eei < ESDTOperations (gasCost e)"
    and tok: "getExistingToken e tokenName eei = Inr token"
    and owner: "OwnerAddress token = CallerAddr args"
    and pos: "0 < SetBytes amount"
    and mintable: "Mintable token"
    and marshal: "MarshalData (marshalizer e)
        (token\<lparr>MintedValue := MintedValue token + SetBytes amount\<rparr>) = Inr d"
    and len: "length destination \<noteq> length (CallerAddr args)"
  shows "fst (mint e args eei) = UserError \<and>
         storage (snd (mint e args eei)) (TokenName token) = Some d"
proof -
  let ?eei1 = "eei\<lparr>gasRemaining := gasRemaining eei - ESDTOperations (gasCost e)\<rparr>"
  let ?tok = "token\<lparr>MintedValue := MintedValue token + SetBytes amount\<rparr>"
  let ?eei2 = "SetStorage (TokenName token) d ?eei1"
  have g: "UseGas (ESDTOperations (gasCost e)) eei = Inr ?eei1"
    using gas by (simp add: UseGas_def)
  have t: "getExistingToken e tokenName ?eei1 = Inr token"
    using tok by (simp add: getExistingToken_def GetStorage_def)
  have b: "basicOwnershipChecks e args eei = (Inr token, ?eei1)"
    unfolding basicOwnershipChecks_def using val owner by (simp add: args g t)
  have sv: "saveToken e ?tok ?eei1 = Inr ?eei2"
    using marshal by (simp add: saveToken_def)
  have "mint e args eei =
      (UserError, AddReturnMessage (Msg ''destination address of invalid length'') ?eei2)"
    unfolding mint_def using pos mintable len
    by (simp add: args b Let_def sv)
  then show ?thesis by (simp add: AddReturnMessage_def SetStorage_def)
qed

text \<open>
  Claim C4: a call that returns \<open>UserError\<close> leaves the storage as it was, also a
  \<open>mint\<close> that fails on the length of its destination address. On the code, the owner's
  \<open>mint\<close> of 5 units of \<open>exampleToken\<close> to the 3-byte destination \<open>abc\<close> (the caller's
  address has 5 bytes) returns \<open>UserError\<close>, and the stored token has gone from a minted
  value of 1000 to 1005.
\<close>

theorem mint_UserError_changes_storage:
  "getExistingToken exampleContract ''ABCDEF1234'' exampleEei = Inr exampleToken \<and>
   OwnerAddress exampleToken = ''owner'' \<and> Mintable exampleToken \<and>
   MintedValue exampleToken = 1000 \<and>
   storage exampleEei ''ABCDEF1234'' = Some ''token0'' \<and>
   fst (mint exampleContract (callOnToken ''owner'' [[CHR 0x05], ''abc''] 0) exampleEei)
     = UserError \<and>
   returnMessages (snd (mint exampleContract (callOnToken ''owner'' [[CHR 0x05], ''abc''] 0)
      exampleEei)) = [Msg ''destination address of invalid length''] \<and>
   storage (snd (mint exampleContract (callOnToken ''owner'' [[CHR 0x05], ''abc''] 0)
      exampleEei)) ''ABCDEF1234'' = Some ''token0-minted-1005'' \<and>
   getExistingToken exampleContract ''ABCDEF1234''
      (snd (mint exampleContract (callOnToken ''owner'' [[CHR 0x05], ''abc''] 0) exampleEei))
     = Inr (exampleToken\<lparr>MintedValue := 1005\<rparr>)"
  by (simp add: mint_def basicOwnershipChecks_def getExistingToken_def saveToken_def
      example_defs eei_defs SetBytes_def)

end
